theory Spec2Isabelle
  imports Complex_Main "HOL-Library.Sublist" "HOL-Library.Log_Nat"
begin

section \<open>The search_movies tool of movie-mcp-server\<close>

text \<open>
  The repository registers one tool, \<open>search_movies\<close>, twice: in \<open>index.ts\<close>
  (\<open>searchMoviesHandler\<close>, on the mcp-use framework) and in the edge function (the
  handler passed to \<open>registerTool\<close>). Both read the API key, issue one GET request to
  TMDB, and shape the answer into a text line and a structured payload.

  Conventions of the embedding:
  \<^item> a JavaScript string is modelled by the bytes of its UTF-8 encoding (\<open>string\<close>);
    every literal of the source is ASCII, concatenation and emptiness are the same on
    bytes and on code units, and the byte of \<open>-\<close> occurs in no multi-byte sequence;
  \<^item> a JavaScript number is a binary64 double, modelled by its exact value, a rational
    (\<open>rat\<close>); where the source reads a decimal string back as a number, the value is
    rounded to the nearest double (\<open>round_double\<close>); infinities and NaN are not values
    of the model;
  \<^item> \<open>undefined\<close>, \<open>null\<close> and a value are kept apart (\<open>optional_nullable\<close>);
  \<^item> an exception is a value (\<open>thrown\<close>), a \<open>try\<close> block returns a sum;
  \<^item> the network is a function of the world (\<open>fetch\<close>), and every handler returns the
    list of the requests it issued beside its result.
\<close>

subsection \<open>Values of the JavaScript runtime\<close>

datatype 'a optional_nullable = Undefined | Null | Value 'a

text \<open>The result of \<open>JSON.parse\<close>. An object is its list of members in source order.\<close>

datatype json =
    JNull
  | JBool bool
  | JNum rat
  | JStr string
  | JArr "json list"
  | JObj "(string \<times> json) list"

text \<open>
  Property lookup on a parsed object: \<open>JSON.parse\<close> keeps the last of several members
  with one name.
\<close>

definition js_get :: "(string \<times> json) list \<Rightarrow> string \<Rightarrow> json option" where
  "js_get members k = map_of (rev members) k"

text \<open>
  A thrown value: an instance of \<open>Error\<close> with its \<open>message\<close>, or any other value, with
  its own \<open>message\<close> property when it has one that is a string.
\<close>

datatype thrown = ErrorInstance string | OtherValue "string option"

text \<open>Truthiness of \<open>string | null | undefined\<close>: only a non-empty string is truthy.\<close>

fun js_truthy :: "string optional_nullable \<Rightarrow> bool" where
  "js_truthy (Value s) = (s \<noteq> [])"
| "js_truthy _ = False"

text \<open>Template interpolation of a non-negative integer: its decimal digits.\<close>

definition digit_char :: "nat \<Rightarrow> char" where
  "digit_char d = char_of (48 + d)"

fun string_of_nat :: "nat \<Rightarrow> string" where
  "string_of_nat n =
     (if n < 10 then [digit_char n]
      else string_of_nat (n div 10) @ [digit_char (n mod 10)])"

declare string_of_nat.simps [simp del]

subsubsection \<open>\<open>String.prototype.split\<close> with a one-character separator\<close>

fun js_split :: "char \<Rightarrow> string \<Rightarrow> string list" where
  "js_split sep [] = [[]]"
| "js_split sep (c # cs) =
     (if c = sep then [] # js_split sep cs
      else (case js_split sep cs of
              seg # segs \<Rightarrow> (c # seg) # segs
            | [] \<Rightarrow> [[c]]))"

subsubsection \<open>\<open>String.prototype.trim\<close>\<close>

text \<open>
  The UTF-8 encodings of the code points that ECMAScript calls WhiteSpace or
  LineTerminator: U+0009 to U+000D, U+0020, U+00A0, U+1680, U+2000 to U+200A, U+2028,
  U+2029, U+202F, U+205F, U+3000 and U+FEFF.
\<close>

definition js_whitespace :: "string list" where
  "js_whitespace =
     [[CHR 0x09], [CHR 0x0A], [CHR 0x0B], [CHR 0x0C], [CHR 0x0D], [CHR 0x20],
      [CHR 0xC2, CHR 0xA0],
      [CHR 0xE1, CHR 0x9A, CHR 0x80],
      [CHR 0xE2, CHR 0x80, CHR 0x80], [CHR 0xE2, CHR 0x80, CHR 0x81],
      [CHR 0xE2, CHR 0x80, CHR 0x82], [CHR 0xE2, CHR 0x80, CHR 0x83],
      [CHR 0xE2, CHR 0x80, CHR 0x84], [CHR 0xE2, CHR 0x80, CHR 0x85],
      [CHR 0xE2, CHR 0x80, CHR 0x86], [CHR 0xE2, CHR 0x80, CHR 0x87],
      [CHR 0xE2, CHR 0x80, CHR 0x88], [CHR 0xE2, CHR 0x80, CHR 0x89],
      [CHR 0xE2, CHR 0x80, CHR 0x8A],
      [CHR 0xE2, CHR 0x80, CHR 0xA8], [CHR 0xE2, CHR 0x80, CHR 0xA9],
      [CHR 0xE2, CHR 0x80, CHR 0xAF],
      [CHR 0xE2, CHR 0x81, CHR 0x9F],
      [CHR 0xE3, CHR 0x80, CHR 0x80],
      [CHR 0xEF, CHR 0xBB, CHR 0xBF]]"

text \<open>Removing one leading occurrence of one of the given non-empty words.\<close>

fun strip_one :: "string list \<Rightarrow> string \<Rightarrow> string option" where
  "strip_one [] s = None"
| "strip_one (w # ws) s =
     (if w \<noteq> [] \<and> prefix w s then Some (drop (length w) s) else strip_one ws s)"

function strip_all :: "string list \<Rightarrow> string \<Rightarrow> string" where
  "strip_all ws s = (case strip_one ws s of None \<Rightarrow> s | Some r \<Rightarrow> strip_all ws r)"
  by pat_completeness auto
termination
proof (relation "measure (\<lambda>(ws, s). length s)")
  show "wf (measure (\<lambda>(ws :: string list, s :: string). length s))"
    by simp
next
  fix ws :: "string list" and s r :: string
  assume "strip_one ws s = Some r"
  then have "length r < length s"
  proof (induction ws)
    case Nil
    then show ?case by simp
  next
    case (Cons w ws)
    show ?case
    proof (cases "w \<noteq> [] \<and> prefix w s")
      case True
      then have "r = drop (length w) s"
        using Cons.prems by simp
      moreover have "0 < length w \<and> length w \<le> length s"
        using True by (auto simp: prefix_def)
      ultimately show ?thesis
        by (cases w) auto
    next
      case False
      then show ?thesis
        using Cons by auto
    qed
  qed
  then show "((ws, r), (ws, s)) \<in> measure (\<lambda>(ws, s). length s)"
    by simp
qed

declare strip_all.simps [simp del]

definition js_trimStart :: "string \<Rightarrow> string" where
  "js_trimStart s = strip_all js_whitespace s"

definition js_trimEnd :: "string \<Rightarrow> string" where
  "js_trimEnd s = rev (strip_all (map rev js_whitespace) (rev s))"

definition js_trim :: "string \<Rightarrow> string" where
  "js_trim s = js_trimEnd (js_trimStart s)"

subsubsection \<open>Reading a decimal as a double\<close>

text \<open>
  \<open>Number\<close> applied to a decimal string gives the double nearest to the value that the
  string denotes, the one with the even significand when two are equally near. A double
  is a multiple of its unit in the last place, \<open>2^(e - 52)\<close> when its magnitude lies in
  \<open>[2^e, 2^(e + 1))\<close>, and never less than \<open>2^(-1074)\<close>. The overflow to infinity is
  left out: the decimals read here are below \<open>10^21 + 1\<close>.
\<close>

text \<open>For \<open>x > 0\<close>, the \<open>e\<close> with \<open>2^e \<le> x < 2^(e + 1)\<close>.\<close>

definition floor_log2 :: "rat \<Rightarrow> int" where
  "floor_log2 x =
     (if 1 \<le> x then bitlen \<lfloor>x\<rfloor> - 1 else - bitlen (\<lceil>1 / x\<rceil> - 1))"

definition round_ties_even :: "rat \<Rightarrow> int" where
  "round_ties_even y =
     (let f = \<lfloor>y\<rfloor>; d = y - of_int f
      in if d < 1 / 2 then f
         else if 1 / 2 < d then f + 1
         else if even f then f else f + 1)"

definition ulp_exponent :: "rat \<Rightarrow> int" where
  "ulp_exponent x = max (- 1074) (floor_log2 \<bar>x\<bar> - 52)"

definition round_double :: "rat \<Rightarrow> rat" where
  "round_double x =
     (if x = 0 then 0
      else sgn x * of_int (round_ties_even (\<bar>x\<bar> / 2 powi ulp_exponent x))
             * 2 powi ulp_exponent x)"

subsubsection \<open>\<open>Number(x.toFixed(1))\<close>\<close>

text \<open>
  \<open>Number.prototype.toFixed\<close> with one fraction digit, read back by \<open>Number\<close>. On the
  absolute value \<open>a\<close> of a double: below \<open>10^21\<close> the string is the decimal \<open>n / 10\<close>
  for the integer \<open>n\<close> with \<open>n / 10\<close> nearest to \<open>a\<close>, the larger one when two are
  equally near, and \<open>Number\<close> rounds that decimal to a double; at \<open>10^21\<close> and above
  the string is that of \<open>ToString\<close>, which \<open>Number\<close> reads back as the same double.
  The sign is put in front of the digits, so it is put back in front of the result.
\<close>

definition number_toFixed1 :: "rat \<Rightarrow> rat" where
  "number_toFixed1 x =
     (let a = \<bar>x\<bar>;
          m = (if 10 ^ 21 \<le> a then a
               else round_double (of_int \<lfloor>a * 10 + 1 / 2\<rfloor> / 10))
      in if x < 0 then - m else m)"

subsection \<open>The upstream schema and the movie card\<close>

text \<open>One entry of \<open>results\<close>, as \<open>tmdbSearchResponseSchema\<close> infers it.\<close>

record tmdb_movie =
  tmdb_id :: rat
  tmdb_title :: string
  release_date :: "string optional_nullable"
  vote_average :: "rat optional_nullable"
  poster_path :: "string optional_nullable"

record tmdb_payload =
  results :: "tmdb_movie list"

text \<open>\<open>MovieCard\<close>, as \<open>movieCardSchema\<close> infers it.\<close>

record movie_card =
  card_id :: rat
  card_title :: string
  releaseYear :: string
  rating :: rat
  posterUrl :: "string option"

text \<open>\<open>z.string().nullable().optional()\<close> on a member that may be missing.\<close>

fun parse_optional_string :: "json option \<Rightarrow> string optional_nullable option" where
  "parse_optional_string None = Some Undefined"
| "parse_optional_string (Some JNull) = Some Null"
| "parse_optional_string (Some (JStr s)) = Some (Value s)"
| "parse_optional_string (Some _) = None"

fun parse_optional_number :: "json option \<Rightarrow> rat optional_nullable option" where
  "parse_optional_number None = Some Undefined"
| "parse_optional_number (Some JNull) = Some Null"
| "parse_optional_number (Some (JNum x)) = Some (Value x)"
| "parse_optional_number (Some _) = None"

text \<open>The inner \<open>z.object\<close>: \<open>id\<close> and \<open>title\<close> are required, unknown members are dropped.\<close>

fun parse_tmdb_movie :: "json \<Rightarrow> tmdb_movie option" where
  "parse_tmdb_movie (JObj ms) =
     (case (js_get ms ''id'', js_get ms ''title'',
            parse_optional_string (js_get ms ''release_date''),
            parse_optional_number (js_get ms ''vote_average''),
            parse_optional_string (js_get ms ''poster_path'')) of
        (Some (JNum i), Some (JStr t), Some rd, Some va, Some pp) \<Rightarrow>
          Some \<lparr>tmdb_id = i, tmdb_title = t, release_date = rd,
                vote_average = va, poster_path = pp\<rparr>
      | _ \<Rightarrow> None)"
| "parse_tmdb_movie _ = None"

text \<open>All entries of an array, or nothing when one of them is rejected.\<close>

fun parse_all :: "json list \<Rightarrow> tmdb_movie list option" where
  "parse_all [] = Some []"
| "parse_all (j # js) =
     (case parse_tmdb_movie j of
        None \<Rightarrow> None
      | Some m \<Rightarrow> (case parse_all js of None \<Rightarrow> None | Some ms \<Rightarrow> Some (m # ms)))"

text \<open>
  \<open>tmdbSearchResponseSchema.parse\<close>: \<open>None\<close> stands for the thrown \<open>ZodError\<close>.
\<close>

fun tmdbSearchResponseSchema_parse :: "json \<Rightarrow> tmdb_payload option" where
  "tmdbSearchResponseSchema_parse (JObj ms) =
     (case js_get ms ''results'' of
        Some (JArr items) \<Rightarrow>
          (case parse_all items of
             None \<Rightarrow> None
           | Some rs \<Rightarrow> Some \<lparr>results = rs\<rparr>)
      | _ \<Rightarrow> None)"
| "tmdbSearchResponseSchema_parse _ = None"

definition TMDB_SEARCH_URL :: string where
  "TMDB_SEARCH_URL = ''https://api.themoviedb.org/3/search/movie''"

definition TMDB_POSTER_BASE_URL :: string where
  "TMDB_POSTER_BASE_URL = ''https://image.tmdb.org/t/p/w500''"

definition formatReleaseYear :: "string optional_nullable \<Rightarrow> string" where
  "formatReleaseYear releaseDate =
     (if \<not> js_truthy releaseDate then ''N/A''
      else (case releaseDate of
              Value d \<Rightarrow>
                (case js_split CHR ''-'' d of
                   year # _ \<Rightarrow> (if year \<noteq> [] then year else ''N/A'')
                 | [] \<Rightarrow> ''N/A'')
            | _ \<Rightarrow> ''N/A''))"

definition buildPosterUrl :: "string optional_nullable \<Rightarrow> string option" where
  "buildPosterUrl posterPath =
     (if \<not> js_truthy posterPath then None
      else (case posterPath of
              Value p \<Rightarrow> Some (TMDB_POSTER_BASE_URL @ p)
            | _ \<Rightarrow> None))"

text \<open>\<open>movie.vote_average ?? 0\<close>: only \<open>undefined\<close> and \<open>null\<close> give the default.\<close>

fun nullish_or_zero :: "rat optional_nullable \<Rightarrow> rat" where
  "nullish_or_zero (Value v) = v"
| "nullish_or_zero _ = 0"

definition mapTmdbMovieToCard :: "tmdb_movie \<Rightarrow> movie_card" where
  "mapTmdbMovieToCard movie =
     \<lparr>card_id = tmdb_id movie,
      card_title = tmdb_title movie,
      releaseYear = formatReleaseYear (release_date movie),
      rating = number_toFixed1 (nullish_or_zero (vote_average movie)),
      posterUrl = buildPosterUrl (poster_path movie)\<rparr>"

subsection \<open>The world around one invocation\<close>

text \<open>
  The request that \<open>fetch\<close> receives: the endpoint and the search parameters in the
  order in which \<open>url.searchParams.set\<close> adds them.
\<close>

record request =
  endpoint :: string
  searchParams :: "(string \<times> string) list"

text \<open>What \<open>await response.json()\<close> does: it throws, or it returns the parsed body.\<close>

datatype body_result = BodyThrows thrown | BodyJson json

record response =
  status :: nat
  json_body :: body_result

text \<open>\<open>response.ok\<close> is true for the statuses 200 to 299.\<close>

definition response_ok :: "response \<Rightarrow> bool" where
  "response_ok r = (200 \<le> status r \<and> status r \<le> 299)"

text \<open>What \<open>await fetch(url)\<close> does: it throws, or it returns a response.\<close>

datatype fetch_result = FetchThrows thrown | FetchResponse response

text \<open>
  The environment variable \<open>TMDB_API_KEY\<close> (a string or \<open>undefined\<close>), the network,
  and the message that the validation library puts into the \<open>ZodError\<close> it throws on
  a body that the schema rejects.
\<close>

record world =
  apiKey :: "string option"
  fetch :: "request \<Rightarrow> fetch_result"
  zod_message :: "json \<Rightarrow> string"

text \<open>\<open>searchMoviesWidgetPropsSchema\<close>; \<open>None\<close> is a payload without an \<open>error\<close> member.\<close>

record widget_props =
  query :: string
  movies :: "movie_card list"
  error :: "string option"

text \<open>The two channels of a tool result: the text line and the structured payload.\<close>

record tool_result =
  text_output :: string
  props :: widget_props

definition dquote :: string where
  "dquote = [CHR 0x22]"

definition search_request :: "string \<Rightarrow> string \<Rightarrow> request" where
  "search_request key q =
     \<lparr>endpoint = TMDB_SEARCH_URL,
      searchParams = [(''api_key'', key), (''query'', q), (''page'', ''1''),
                      (''include_adult'', ''false'')]\<rparr>"

subsection \<open>\<open>searchMoviesHandler\<close> of \<open>index.ts\<close>\<close>

definition buildSearchMoviesWidgetResponse :: "widget_props \<Rightarrow> string \<Rightarrow> tool_result" where
  "buildSearchMoviesWidgetResponse p modelMessage = \<lparr>text_output = modelMessage, props = p\<rparr>"

text \<open>\<open>body?.status_message\<close>: \<open>None\<close> is \<open>undefined\<close>.\<close>

fun status_message :: "json \<Rightarrow> json option" where
  "status_message (JObj ms) = js_get ms ''status_message''"
| "status_message _ = None"

text \<open>
  The inner \<open>try\<close> of the failure branch: \<open>details\<close> stays empty when reading the body
  throws, and when \<open>status_message\<close> is missing, falsy or not a string.
\<close>

definition error_details :: "response \<Rightarrow> string" where
  "error_details r =
     (case json_body r of
        BodyThrows _ \<Rightarrow> []
      | BodyJson b \<Rightarrow>
          (case status_message b of
             Some (JStr m) \<Rightarrow> (if m \<noteq> [] then '' '' @ m else [])
           | _ \<Rightarrow> []))"

text \<open>The outer \<open>try\<close> block: \<open>Inl\<close> is the value it throws.\<close>

definition search_try :: "world \<Rightarrow> string \<Rightarrow> string \<Rightarrow> thrown + tool_result" where
  "search_try w key q =
     (case fetch w (search_request key q) of
        FetchThrows t \<Rightarrow> Inl t
      | FetchResponse r \<Rightarrow>
          if \<not> response_ok r then
            Inr (buildSearchMoviesWidgetResponse
                   \<lparr>query = q, movies = [],
                    error = Some (js_trim (''TMDB request failed with status ''
                              @ string_of_nat (status r) @ ''.'' @ error_details r))\<rparr>
                   ''Movie search failed due to an external API error.'')
          else
            (case json_body r of
               BodyThrows t \<Rightarrow> Inl t
             | BodyJson j \<Rightarrow>
                 (case tmdbSearchResponseSchema_parse j of
                    None \<Rightarrow> Inl (ErrorInstance (zod_message w j))
                  | Some payload \<Rightarrow>
                      (let ms = map mapTmdbMovieToCard (take 3 (results payload)) in
                       if length ms = 0 then
                         Inr (buildSearchMoviesWidgetResponse
                                \<lparr>query = q, movies = [],
                                 error = Some ''No movies found for this query.''\<rparr>
                                (''No movies found for '' @ dquote @ q @ dquote @ ''.''))
                       else
                         Inr (buildSearchMoviesWidgetResponse
                                \<lparr>query = q, movies = ms, error = None\<rparr>
                                (''Found '' @ string_of_nat (length ms)
                                 @ '' movie result(s) for '' @ dquote @ q @ dquote
                                 @ ''.''))))))"

text \<open>The \<open>catch\<close> clause.\<close>

fun thrown_message :: "thrown \<Rightarrow> string" where
  "thrown_message (ErrorInstance m) = m"
| "thrown_message (OtherValue _) = ''Unknown network error''"

definition search_catch :: "string \<Rightarrow> thrown \<Rightarrow> tool_result" where
  "search_catch q err =
     buildSearchMoviesWidgetResponse
       \<lparr>query = q, movies = [],
        error = Some (''Unable to fetch movie results right now: '' @ thrown_message err)\<rparr>
       ''Movie search failed due to a network or parsing error.''"

definition missing_key_response :: "string \<Rightarrow> tool_result" where
  "missing_key_response q =
     buildSearchMoviesWidgetResponse
       \<lparr>query = q, movies = [],
        error = Some ''TMDB API key is missing. Set TMDB_API_KEY and try again.''\<rparr>
       ''Movie search failed because the TMDB API key is not configured.''"

text \<open>
  The handler. The second component lists the requests given to \<open>fetch\<close>: none when the
  key is missing or empty, otherwise the one that opens the \<open>try\<close> block.
\<close>

definition searchMoviesHandler :: "world \<Rightarrow> string \<Rightarrow> tool_result \<times> request list" where
  "searchMoviesHandler w q =
     (case apiKey w of
        None \<Rightarrow> (missing_key_response q, [])
      | Some key \<Rightarrow>
          if key = [] then (missing_key_response q, [])
          else
            (case search_try w key q of
               Inr res \<Rightarrow> res
             | Inl err \<Rightarrow> search_catch q err,
             [search_request key q]))"

subsection \<open>The \<open>search_movies\<close> handler of the edge function\<close>

text \<open>
  The same flow written inline, with two differences: the text of the missing-key case,
  and a failure branch that never reads the body of the response.
\<close>

definition edge_try :: "world \<Rightarrow> string \<Rightarrow> string \<Rightarrow> thrown + tool_result" where
  "edge_try w key q =
     (case fetch w (search_request key q) of
        FetchThrows t \<Rightarrow> Inl t
      | FetchResponse r \<Rightarrow>
          if \<not> response_ok r then
            Inr \<lparr>text_output = ''Movie search failed due to an external API error.'',
                 props = \<lparr>query = q, movies = [],
                          error = Some (''TMDB request failed with status ''
                                    @ string_of_nat (status r) @ ''.'')\<rparr>\<rparr>
          else
            (case json_body r of
               BodyThrows t \<Rightarrow> Inl t
             | BodyJson j \<Rightarrow>
                 (case tmdbSearchResponseSchema_parse j of
                    None \<Rightarrow> Inl (ErrorInstance (zod_message w j))
                  | Some parsed \<Rightarrow>
                      (let ms = map (\<lambda>movie.
                                  \<lparr>card_id = tmdb_id movie,
                                   card_title = tmdb_title movie,
                                   releaseYear = formatReleaseYear (release_date movie),
                                   rating = number_toFixed1
                                              (nullish_or_zero (vote_average movie)),
                                   posterUrl = buildPosterUrl (poster_path movie)\<rparr>)
                                 (take 3 (results parsed)) in
                       if length ms = 0 then
                         Inr \<lparr>text_output = ''No movies found for '' @ dquote @ q @ dquote
                                       @ ''.'',
                              props = \<lparr>query = q, movies = [],
                                       error = Some ''No movies found for this query.''\<rparr>\<rparr>
                       else
                         Inr \<lparr>text_output = ''Found '' @ string_of_nat (length ms)
                                       @ '' movie result(s) for '' @ dquote @ q @ dquote
                                       @ ''.'',
                              props = \<lparr>query = q, movies = ms, error = None\<rparr>\<rparr>))))"

definition edge_catch :: "string \<Rightarrow> thrown \<Rightarrow> tool_result" where
  "edge_catch q err =
     \<lparr>text_output = ''Movie search failed due to a network or parsing error.'',
      props = \<lparr>query = q, movies = [],
               error = Some (''Unable to fetch movie results right now: ''
                         @ thrown_message err)\<rparr>\<rparr>"

definition edge_missing_key :: "string \<Rightarrow> tool_result" where
  "edge_missing_key q =
     \<lparr>text_output = ''Movie search failed because TMDB_API_KEY is not configured.'',
      props = \<lparr>query = q, movies = [],
               error = Some ''TMDB API key is missing. Set TMDB_API_KEY and try again.''\<rparr>\<rparr>"

definition edge_search_movies :: "world \<Rightarrow> string \<Rightarrow> tool_result \<times> request list" where
  "edge_search_movies w q =
     (case apiKey w of
        None \<Rightarrow> (edge_missing_key q, [])
      | Some key \<Rightarrow>
          if key = [] then (edge_missing_key q, [])
          else
            (case edge_try w key q of
               Inr res \<Rightarrow> res
             | Inl err \<Rightarrow> edge_catch q err,
             [search_request key q]))"

subsection \<open>The widget's empty state\<close>

text \<open>
  The widget shows its line "No results to display." when the payload has no truthy
  \<open>error\<close> and no movie: \<open>!props.error && movies.length === 0\<close>.
\<close>

definition widget_empty_state :: "widget_props \<Rightarrow> bool" where
  "widget_empty_state p =
     ((error p = None \<or> error p = Some []) \<and> length (movies p) = 0)"

subsection \<open>Concrete inputs\<close>

text \<open>A world whose network answers every request in the same way.\<close>

definition world_with :: "string option \<Rightarrow> fetch_result \<Rightarrow> world" where
  "world_with k res =
     \<lparr>apiKey = k, fetch = (\<lambda>_. res), zod_message = (\<lambda>_. ''Invalid input'')\<rparr>"

definition respond :: "nat \<Rightarrow> body_result \<Rightarrow> fetch_result" where
  "respond code b = FetchResponse \<lparr>status = code, json_body = b\<rparr>"

text \<open>An upstream entry with every member present, and one with the required two only.\<close>

definition full_entry :: "rat \<Rightarrow> json" where
  "full_entry i =
     JObj [(''id'', JNum i), (''title'', JStr ''The Matrix''),
           (''release_date'', JStr ''1999-03-31''),
           (''vote_average'', JNum (7666 / 1000)),
           (''poster_path'', JStr ''/abc.jpg'')]"

definition bare_entry :: "rat \<Rightarrow> json" where
  "bare_entry i = JObj [(''id'', JNum i), (''title'', JStr ''Untitled'')]"

definition results_body :: "json list \<Rightarrow> body_result" where
  "results_body items = BodyJson (JObj [(''results'', JArr items)])"

section \<open>Properties\<close>

subsection \<open>Auxiliary facts\<close>

lemma parse_all_nth:
  "parse_all items = Some rs \<Longrightarrow>
     length rs = length items \<and> (\<forall>i < length items. parse_tmdb_movie (items ! i) = Some (rs ! i))"
proof (induction items arbitrary: rs)
  case Nil
  then show ?case by simp
next
  case (Cons j js)
  from Cons.prems obtain m ms where m: "parse_tmdb_movie j = Some m"
    and ms: "parse_all js = Some ms" and rs: "rs = m # ms"
    by (auto split: option.splits)
  from Cons.IH [OF ms] have len: "length ms = length js"
    and nth: "\<forall>i < length js. parse_tmdb_movie (js ! i) = Some (ms ! i)"
    by simp_all
  show ?case
  proof (intro conjI allI impI)
    show "length rs = length (j # js)" using len rs by simp
  next
    fix i assume "i < length (j # js)"
    then show "parse_tmdb_movie ((j # js) ! i) = Some (rs ! i)"
      using m nth rs by (cases i) simp_all
  qed
qed

lemma js_split_nonempty: "js_split sep s \<noteq> []"
  by (induction s) (auto split: list.splits)

lemma js_split_first: "hd (js_split sep s) = takeWhile (\<lambda>c. c \<noteq> sep) s"
  by (induction s) (auto split: list.splits simp: js_split_nonempty)

lemma strip_one_append:
  assumes "\<forall>w \<in> set ws. c \<notin> set w"
  shows "strip_one ws (y @ c # z) = map_option (\<lambda>r. r @ c # z) (strip_one ws y)"
  using assms
proof (induction ws)
  case Nil
  then show ?case by simp
next
  case (Cons w ws)
  have cw: "c \<notin> set w" using Cons.prems by simp
  have pre: "prefix w (y @ c # z) \<longleftrightarrow> prefix w y"
  proof
    assume "prefix w (y @ c # z)"
    then consider "prefix w y" | us where "w = y @ us" "prefix us (c # z)"
      by (auto simp: prefix_append)
    then show "prefix w y"
    proof cases
      case 1
      then show ?thesis .
    next
      case 2
      then have "us = []" using cw by (cases us) auto
      then show ?thesis using 2 by simp
    qed
  next
    assume "prefix w y"
    then show "prefix w (y @ c # z)" by (simp add: prefix_append)
  qed
  show ?case
  proof (cases "w \<noteq> [] \<and> prefix w y")
    case True
    then have "length w \<le> length y" by (simp add: prefix_length_le)
    then show ?thesis using True pre by simp
  next
    case False
    then show ?thesis using pre Cons by auto
  qed
qed

lemma strip_all_append:
  assumes "\<forall>w \<in> set ws. c \<notin> set w"
  shows "strip_all ws (y @ c # z) = strip_all ws y @ c # z"
  using assms
proof (induction ws y rule: strip_all.induct)
  case (1 ws s)
  show ?case
  proof (cases "strip_one ws s")
    case None
    then have "strip_one ws (s @ c # z) = None"
      using "1.prems" by (simp add: strip_one_append)
    then show ?thesis using None by (simp add: strip_all.simps [of ws s] strip_all.simps [of ws "s @ c # z"])
  next
    case (Some r)
    then have "strip_one ws (s @ c # z) = Some (r @ c # z)"
      using "1.prems" by (simp add: strip_one_append)
    then show ?thesis
      using Some "1.IH" [OF Some "1.prems"]
      by (simp add: strip_all.simps [of ws s] strip_all.simps [of ws "s @ c # z"])
  qed
qed

lemma dot_not_whitespace: "\<forall>w \<in> set (map rev js_whitespace). CHR ''.'' \<notin> set w"
  by (simp add: js_whitespace_def)

lemma js_trimEnd_after_dot: "js_trimEnd (p @ CHR ''.'' # x) = p @ CHR ''.'' # js_trimEnd x"
  using strip_all_append [OF dot_not_whitespace, of "rev x" "rev p"]
  by (simp add: js_trimEnd_def)

lemma js_trimStart_T: "js_trimStart (CHR ''T'' # s) = CHR ''T'' # s"
  by (simp add: js_trimStart_def js_whitespace_def strip_all.simps [of _ "CHR ''T'' # s"])

lemma js_trimEnd_Nil: "js_trimEnd [] = []"
  by (simp add: js_trimEnd_def js_whitespace_def strip_all.simps [of _ "[]"])

lemma powi_nat: "0 \<le> k \<Longrightarrow> (2::rat) powi k = of_int (2 ^ nat k)"
  by (simp add: power_int_def)

lemma powi_neg: "0 \<le> k \<Longrightarrow> (2::rat) powi (- k) = 1 / of_int (2 ^ nat k)"
  by (simp add: power_int_def field_simps)

lemma powi_less_imp: "(2::rat) powi a < 2 powi b \<Longrightarrow> a < b"
  using power_int_increasing [of b a "2::rat"] by (cases "b \<le> a") auto

lemma floor_log2_ge1:
  assumes "1 \<le> x"
  shows "2 powi floor_log2 x \<le> x \<and> x < 2 powi (floor_log2 x + 1)"
proof -
  define n where "n = \<lfloor>x\<rfloor>"
  have n1: "1 \<le> n" using assms by (simp add: n_def le_floor_iff)
  then have npos: "0 < n" by simp
  have b1: "1 \<le> bitlen n" using npos by (simp add: bitlen_alt_def)
  have lo: "2 ^ nat (bitlen n - 1) \<le> n" and hi: "n < 2 ^ nat (bitlen n)"
    using bitlen_bounds [OF npos] by simp_all
  have fl: "floor_log2 x = bitlen n - 1"
    using assms by (simp add: floor_log2_def n_def)
  have "(2::rat) powi (bitlen n - 1) = of_int (2 ^ nat (bitlen n - 1))"
    using b1 by (intro powi_nat) simp
  also have "\<dots> \<le> of_int n" using lo by (simp only: of_int_le_iff)
  also have "\<dots> \<le> x" by (simp add: n_def)
  finally have A: "2 powi floor_log2 x \<le> x" by (simp add: fl)
  have "x < of_int (n + 1)" by (simp add: n_def, linarith)
  also have "of_int (n + 1) \<le> (of_int (2 ^ nat (bitlen n)) :: rat)"
    using hi by (simp only: of_int_le_iff)
  also have "\<dots> = 2 powi (bitlen n)"
    using b1 by (subst powi_nat) simp_all
  finally have B: "x < 2 powi (floor_log2 x + 1)" by (simp add: fl)
  from A B show ?thesis ..
qed

lemma floor_log2_lt1:
  assumes "0 < x" and "x < 1"
  shows "2 powi floor_log2 x \<le> x \<and> x < 2 powi (floor_log2 x + 1)"
proof -
  define y where "y = 1 / x"
  define N where "N = \<lceil>y\<rceil>"
  define k where "k = bitlen (N - 1)"
  have y1: "1 < y" using assms by (simp add: y_def)
  have ypos: "0 < y" using y1 by simp
  have xy: "x = 1 / y" using assms by (simp add: y_def)
  have N2: "2 \<le> N" using y1 by (simp add: N_def)
  then have pos: "0 < N - 1" by simp
  have k1: "1 \<le> k" using pos by (simp add: k_def bitlen_alt_def)
  have lo: "2 ^ nat (k - 1) \<le> N - 1" and hi: "N - 1 < 2 ^ nat k"
    using bitlen_bounds [OF pos] by (simp_all add: k_def)
  have fl: "floor_log2 x = - k"
    using assms by (simp add: floor_log2_def k_def N_def y_def)
  have yN: "y \<le> of_int N"
    by (simp add: N_def)
  have Ny: "of_int (N - 1) < y"
    by (simp add: N_def, linarith)
  have "y \<le> of_int N" by (rule yN)
  also have "of_int N \<le> (of_int (2 ^ nat k) :: rat)"
    using hi by (simp only: of_int_le_iff)
  finally have yk: "y \<le> of_int (2 ^ nat k)" .
  have "(of_int (2 ^ nat (k - 1)) :: rat) \<le> of_int (N - 1)"
    using lo by (simp only: of_int_le_iff)
  also have "\<dots> < y" by (rule Ny)
  finally have ky: "of_int (2 ^ nat (k - 1)) < y" .
  have p1: "(0::rat) < of_int (2 ^ nat k)" and p2: "(0::rat) < of_int (2 ^ nat (k - 1))"
    by simp_all
  have "2 powi (- k) = 1 / (of_int (2 ^ nat k) :: rat)"
    using k1 by (intro powi_neg) simp
  also have "\<dots> \<le> 1 / y"
    using yk ypos by (intro divide_left_mono) simp_all
  finally have "2 powi (- k) \<le> x" by (simp only: xy [symmetric])
  then have A: "2 powi floor_log2 x \<le> x" by (simp only: fl)
  have "1 / y < 1 / (of_int (2 ^ nat (k - 1)) :: rat)"
    using ky p2 ypos by (intro divide_strict_left_mono) simp_all
  also have "\<dots> = 2 powi (- (k - 1))"
    using k1 by (subst powi_neg) simp_all
  finally have "x < 2 powi (- (k - 1))" by (simp only: xy [symmetric])
  moreover have "- (k - 1) = - k + 1" by simp
  ultimately have B: "x < 2 powi (floor_log2 x + 1)" by (simp only: fl)
  from A B show ?thesis ..
qed

lemma floor_log2_bounds:
  assumes "0 < x"
  shows "2 powi floor_log2 x \<le> x \<and> x < 2 powi (floor_log2 x + 1)"
  using assms floor_log2_ge1 [of x] floor_log2_lt1 [of x] by (cases "1 \<le> x") auto

lemma round_ties_even_near: "\<bar>of_int (round_ties_even y) - y\<bar> \<le> 1 / 2"
proof -
  have "of_int \<lfloor>y\<rfloor> \<le> y" and "y < of_int \<lfloor>y\<rfloor> + 1" by linarith+
  then show ?thesis
    by (auto simp: round_ties_even_def Let_def)
qed

lemma round_double_minus: "round_double (- x) = - round_double x"
  by (simp add: round_double_def ulp_exponent_def sgn_minus)

lemma round_double_near:
  "\<bar>round_double x - x\<bar> \<le> 2 powi ulp_exponent x / 2"
proof (cases "x = 0")
  case True
  then show ?thesis by (simp add: round_double_def)
next
  case False
  define u :: rat where "u = 2 powi ulp_exponent x"
  define m where "m = round_ties_even (\<bar>x\<bar> / u)"
  have upos: "0 < u" by (simp add: u_def)
  have "\<bar>of_int m - \<bar>x\<bar> / u\<bar> \<le> 1 / 2"
    unfolding m_def by (rule round_ties_even_near)
  then have "\<bar>of_int m - \<bar>x\<bar> / u\<bar> * u \<le> 1 / 2 * u"
    using upos by (intro mult_right_mono) simp_all
  moreover have "(of_int m - \<bar>x\<bar> / u) * u = of_int m * u - \<bar>x\<bar>"
    using upos by (simp add: field_simps)
  then have "\<bar>of_int m * u - \<bar>x\<bar>\<bar> = \<bar>of_int m - \<bar>x\<bar> / u\<bar> * \<bar>u\<bar>"
    by (metis abs_mult)
  then have "\<bar>of_int m - \<bar>x\<bar> / u\<bar> * u = \<bar>of_int m * u - \<bar>x\<bar>\<bar>"
    using upos by simp
  ultimately have near: "\<bar>of_int m * u - \<bar>x\<bar>\<bar> \<le> u / 2" by simp
  have rd: "round_double x = sgn x * (of_int m * u)"
    using False by (simp add: round_double_def u_def m_def)
  have "round_double x - x = sgn x * (of_int m * u - \<bar>x\<bar>)"
    by (simp add: rd right_diff_distrib sgn_mult_abs)
  then have "\<bar>round_double x - x\<bar> = \<bar>of_int m * u - \<bar>x\<bar>\<bar>"
    using False by (simp add: abs_mult abs_sgn_eq)
  then show ?thesis using near by (simp add: u_def)
qed

lemma round_double_relative:
  assumes "1 / 16 \<le> \<bar>x\<bar>"
  shows "\<bar>round_double x - x\<bar> \<le> \<bar>x\<bar> / 2 ^ 53"
proof -
  have pos: "0 < \<bar>x\<bar>" using assms by linarith
  have lo: "2 powi floor_log2 \<bar>x\<bar> \<le> \<bar>x\<bar>" and hi: "\<bar>x\<bar> < 2 powi (floor_log2 \<bar>x\<bar> + 1)"
    using floor_log2_bounds [OF pos] by simp_all
  have "(2::rat) powi (- 4) = 1 / 16" by (simp add: power_int_def field_simps)
  then have "(2::rat) powi (- 4) \<le> \<bar>x\<bar>" using assms by simp
  then have "(2::rat) powi (- 4) < 2 powi (floor_log2 \<bar>x\<bar> + 1)" using hi by linarith
  then have "- 4 < floor_log2 \<bar>x\<bar> + 1"
    by (rule powi_less_imp)
  then have e: "ulp_exponent x = floor_log2 \<bar>x\<bar> - 52"
    by (simp add: ulp_exponent_def)
  have "(2::rat) powi (floor_log2 \<bar>x\<bar> - 52) = 2 powi floor_log2 \<bar>x\<bar> / 2 ^ 52"
    by (simp add: power_int_diff)
  also have "\<dots> \<le> \<bar>x\<bar> / 2 ^ 52" using lo by (simp add: divide_right_mono)
  finally have "2 powi ulp_exponent x / 2 \<le> \<bar>x\<bar> / 2 ^ 53" by (simp add: e)
  then show ?thesis using round_double_near [of x] by linarith
qed

lemma round_double_large_int:
  assumes "10 ^ 21 \<le> \<bar>x\<bar>"
  shows "\<exists>n::int. round_double x = of_int n"
proof -
  have "(0::rat) < 10 ^ 21" by simp
  then have pos: "0 < \<bar>x\<bar>" using assms by linarith
  then have x0: "x \<noteq> 0" by simp
  have hi: "\<bar>x\<bar> < 2 powi (floor_log2 \<bar>x\<bar> + 1)"
    using floor_log2_bounds [OF pos] by simp
  have "(2::rat) powi 69 \<le> 10 ^ 21" by (simp add: power_int_def)
  then have "(2::rat) powi 69 < 2 powi (floor_log2 \<bar>x\<bar> + 1)" using hi assms by linarith
  then have "69 < floor_log2 \<bar>x\<bar> + 1"
    by (rule powi_less_imp)
  then have e: "0 \<le> ulp_exponent x" by (simp add: ulp_exponent_def)
  define m where "m = round_ties_even (\<bar>x\<bar> / 2 powi ulp_exponent x)"
  have "round_double x = of_int (m * 2 ^ nat (ulp_exponent x))
      \<or> round_double x = of_int (- (m * 2 ^ nat (ulp_exponent x)))"
    using x0 e by (cases "0 < x") (simp_all add: round_double_def m_def powi_nat)
  then show ?thesis by blast
qed

lemma nearest_tenth:
  fixes a :: rat
  shows "\<bar>of_int \<lfloor>a * 10 + 1 / 2\<rfloor> / 10 - a\<bar> \<le> 1 / 20"
proof -
  define n where "n = \<lfloor>a * 10 + 1 / 2\<rfloor>"
  have "of_int n \<le> a * 10 + 1 / 2" and "a * 10 + 1 / 2 < of_int n + 1"
    unfolding n_def by linarith+
  then have "of_int n / 10 - a \<le> 1 / 20" and "- (1 / 20) \<le> of_int n / 10 - a"
    by linarith+
  then have "\<bar>of_int n / 10 - a\<bar> \<le> 1 / 20" by linarith
  then show ?thesis by (simp only: n_def)
qed

lemma toFixed1_decimal:
  assumes "\<bar>x\<bar> < 10 ^ 21"
  shows "\<exists>n::int. \<bar>of_int n / 10 - x\<bar> \<le> 1 / 20
           \<and> number_toFixed1 x = round_double (of_int n / 10)"
proof (cases "x < 0")
  case True
  define k where "k = \<lfloor>\<bar>x\<bar> * 10 + 1 / 2\<rfloor>"
  have "number_toFixed1 x = - round_double (of_int k / 10)"
    using True assms by (simp add: number_toFixed1_def Let_def k_def)
  then have val: "number_toFixed1 x = round_double (of_int (- k) / 10)"
    by (simp add: round_double_minus [symmetric])
  have "\<bar>of_int k / 10 - \<bar>x\<bar>\<bar> \<le> 1 / 20"
    unfolding k_def by (rule nearest_tenth)
  moreover have "(of_int (- k) :: rat) = - of_int k"
    by simp
  ultimately have "\<bar>of_int (- k) / 10 - x\<bar> \<le> 1 / 20"
    using True by linarith
  with val show ?thesis by blast
next
  case False
  define k where "k = \<lfloor>\<bar>x\<bar> * 10 + 1 / 2\<rfloor>"
  have val: "number_toFixed1 x = round_double (of_int k / 10)"
    using False assms by (simp add: number_toFixed1_def Let_def k_def)
  have "\<bar>of_int k / 10 - \<bar>x\<bar>\<bar> \<le> 1 / 20"
    unfolding k_def by (rule nearest_tenth)
  then have "\<bar>of_int k / 10 - x\<bar> \<le> 1 / 20"
    using False by simp
  with val show ?thesis by blast
qed

lemma round_double_tenths:
  "\<bar>round_double (of_int n / 10) - of_int n / 10\<bar> \<le> \<bar>of_int n / 10\<bar> / 2 ^ 53"
proof (cases "n = 0")
  case True
  then show ?thesis by (simp add: round_double_def)
next
  case False
  then have "1 \<le> \<bar>n\<bar>" by simp
  then have "(1::rat) \<le> of_int \<bar>n\<bar>" by (simp only: of_int_1_le_iff)
  then have "1 / 16 \<le> \<bar>(of_int n :: rat) / 10\<bar>" by simp
  then show ?thesis by (rule round_double_relative)
qed

lemma toFixed1_large: "10 ^ 21 \<le> \<bar>x\<bar> \<Longrightarrow> number_toFixed1 x = x"
  by (cases "x < 0") (simp_all add: number_toFixed1_def Let_def)


subsection \<open>The branches of the two handlers\<close>

lemma string_of_nat_3: "string_of_nat 3 = ''3''"
  by code_simp

lemma handler_missing_key:
  assumes "apiKey w = None \<or> apiKey w = Some []"
  shows "searchMoviesHandler w q = (missing_key_response q, [])"
    and "edge_search_movies w q = (edge_missing_key q, [])"
  using assms by (auto simp: searchMoviesHandler_def edge_search_movies_def)

lemma handler_with_key:
  assumes "apiKey w = Some key" and "key \<noteq> []"
  shows "searchMoviesHandler w q =
           (case search_try w key q of Inr res \<Rightarrow> res | Inl err \<Rightarrow> search_catch q err,
            [search_request key q])"
    and "edge_search_movies w q =
           (case edge_try w key q of Inr res \<Rightarrow> res | Inl err \<Rightarrow> edge_catch q err,
            [search_request key q])"
  using assms by (simp_all add: searchMoviesHandler_def edge_search_movies_def)

lemma try_fetch_throws:
  assumes "fetch w (search_request key q) = FetchThrows t"
  shows "search_try w key q = Inl t" and "edge_try w key q = Inl t"
  using assms by (simp_all add: search_try_def edge_try_def)

lemma try_body_throws:
  assumes "fetch w (search_request key q) = FetchResponse r" and "response_ok r"
    and "json_body r = BodyThrows t"
  shows "search_try w key q = Inl t" and "edge_try w key q = Inl t"
  using assms by (simp_all add: search_try_def edge_try_def)

lemma try_schema_rejects:
  assumes "fetch w (search_request key q) = FetchResponse r" and "response_ok r"
    and "json_body r = BodyJson j" and "tmdbSearchResponseSchema_parse j = None"
  shows "search_try w key q = Inl (ErrorInstance (zod_message w j))"
    and "edge_try w key q = Inl (ErrorInstance (zod_message w j))"
  using assms by (simp_all add: search_try_def edge_try_def)

lemma try_http_failure:
  assumes "fetch w (search_request key q) = FetchResponse r" and "\<not> response_ok r"
  shows "search_try w key q =
           Inr \<lparr>text_output = ''Movie search failed due to an external API error.'',
                props = \<lparr>query = q, movies = [],
                         error = Some (js_trim (''TMDB request failed with status ''
                                   @ string_of_nat (status r) @ ''.'' @ error_details r))\<rparr>\<rparr>"
    and "edge_try w key q =
           Inr \<lparr>text_output = ''Movie search failed due to an external API error.'',
                props = \<lparr>query = q, movies = [],
                         error = Some (''TMDB request failed with status ''
                                   @ string_of_nat (status r) @ ''.'')\<rparr>\<rparr>"
  using assms
  by (simp_all add: search_try_def edge_try_def buildSearchMoviesWidgetResponse_def)

lemma edge_map_eq:
  "(\<lambda>movie. \<lparr>card_id = tmdb_id movie, card_title = tmdb_title movie,
        releaseYear = formatReleaseYear (release_date movie),
        rating = number_toFixed1 (nullish_or_zero (vote_average movie)),
        posterUrl = buildPosterUrl (poster_path movie)\<rparr>) = mapTmdbMovieToCard"
  by (rule ext) (simp add: mapTmdbMovieToCard_def)

lemma try_no_results:
  assumes "fetch w (search_request key q) = FetchResponse r" and "response_ok r"
    and "json_body r = BodyJson j" and "tmdbSearchResponseSchema_parse j = Some payload"
    and "results payload = []"
  shows "search_try w key q =
           Inr \<lparr>text_output = ''No movies found for '' @ dquote @ q @ dquote @ ''.'',
                props = \<lparr>query = q, movies = [],
                         error = Some ''No movies found for this query.''\<rparr>\<rparr>"
    and "edge_try w key q =
           Inr \<lparr>text_output = ''No movies found for '' @ dquote @ q @ dquote @ ''.'',
                props = \<lparr>query = q, movies = [],
                         error = Some ''No movies found for this query.''\<rparr>\<rparr>"
  using assms
  by (simp_all add: search_try_def edge_try_def buildSearchMoviesWidgetResponse_def)

lemma try_found:
  assumes "fetch w (search_request key q) = FetchResponse r" and "response_ok r"
    and "json_body r = BodyJson j" and "tmdbSearchResponseSchema_parse j = Some payload"
    and "results payload \<noteq> []"
  shows "search_try w key q =
           Inr \<lparr>text_output = ''Found ''
                    @ string_of_nat (min 3 (length (results payload)))
                    @ '' movie result(s) for '' @ dquote @ q @ dquote @ ''.'',
                props = \<lparr>query = q,
                         movies = map mapTmdbMovieToCard (take 3 (results payload)),
                         error = None\<rparr>\<rparr>"
    and "edge_try w key q =
           Inr \<lparr>text_output = ''Found ''
                    @ string_of_nat (min 3 (length (results payload)))
                    @ '' movie result(s) for '' @ dquote @ q @ dquote @ ''.'',
                props = \<lparr>query = q,
                         movies = map mapTmdbMovieToCard (take 3 (results payload)),
                         error = None\<rparr>\<rparr>"
  using assms
  by (simp_all add: search_try_def edge_try_def buildSearchMoviesWidgetResponse_def
      edge_map_eq Let_def min.commute)

lemma schema_parse_results:
  assumes "js_get ms ''results'' = Some (JArr items)" and "parse_all items = Some rs"
  shows "tmdbSearchResponseSchema_parse (JObj ms) = Some \<lparr>results = rs\<rparr>"
  using assms by simp

lemma handler_movies_of_results:
  assumes "apiKey w = Some key" and "key \<noteq> []"
    and "fetch w (search_request key q) = FetchResponse r" and "response_ok r"
    and "json_body r = BodyJson j" and "tmdbSearchResponseSchema_parse j = Some payload"
  shows "movies (props (fst (searchMoviesHandler w q))) =
           map mapTmdbMovieToCard (take 3 (results payload))"
    and "movies (props (fst (edge_search_movies w q))) =
           map mapTmdbMovieToCard (take 3 (results payload))"
proof -
  show "movies (props (fst (searchMoviesHandler w q))) =
           map mapTmdbMovieToCard (take 3 (results payload))"
  proof (cases "results payload = []")
    case True
    then show ?thesis
      using assms by (simp add: handler_with_key try_no_results)
  next
    case False
    then show ?thesis
      using assms by (simp add: handler_with_key try_found)
  qed
  show "movies (props (fst (edge_search_movies w q))) =
           map mapTmdbMovieToCard (take 3 (results payload))"
  proof (cases "results payload = []")
    case True
    then show ?thesis
      using assms by (simp add: handler_with_key try_no_results)
  next
    case False
    then show ?thesis
      using assms by (simp add: handler_with_key try_found)
  qed
qed

subsection \<open>Facts about the concrete inputs\<close>

lemma full_entry_parses:
  "parse_tmdb_movie (full_entry i) =
     Some \<lparr>tmdb_id = i, tmdb_title = ''The Matrix'', release_date = Value ''1999-03-31'',
           vote_average = Value (7666 / 1000), poster_path = Value ''/abc.jpg''\<rparr>"
  by (simp add: full_entry_def js_get_def)

lemma bare_entry_parses:
  "parse_tmdb_movie (bare_entry i) =
     Some \<lparr>tmdb_id = i, tmdb_title = ''Untitled'', release_date = Undefined,
           vote_average = Undefined, poster_path = Undefined\<rparr>"
  by (simp add: bare_entry_def js_get_def)

lemma ok_200: "response_ok \<lparr>status = 200, json_body = b\<rparr>"
  by (simp add: response_ok_def)

lemma world_with_simps:
  "apiKey (world_with k res) = k"
  "fetch (world_with k res) req = res"
  "zod_message (world_with k res) j = ''Invalid input''"
  by (simp_all add: world_with_def)

lemma js_get_results: "js_get [(''results'', v)] ''results'' = Some v"
  by (simp add: js_get_def)

subsection \<open>Release year, trimming and the shape of every result\<close>

lemma formatReleaseYear_eq:
  "formatReleaseYear rd =
     (case rd of
        Value d \<Rightarrow>
          (if takeWhile (\<lambda>c. c \<noteq> CHR ''-'') d = [] then ''N/A''
           else takeWhile (\<lambda>c. c \<noteq> CHR ''-'') d)
      | _ \<Rightarrow> ''N/A'')"
proof (cases rd)
  case (Value d)
  obtain seg segs where split: "js_split CHR ''-'' d = seg # segs"
    using js_split_nonempty [of "CHR ''-''" d] by (cases "js_split CHR ''-'' d") auto
  then have seg: "seg = takeWhile (\<lambda>c. c \<noteq> CHR ''-'') d"
    using js_split_first [of "CHR ''-''" d] by simp
  show ?thesis
  proof (cases "d = []")
    case True
    then show ?thesis using Value by (simp add: formatReleaseYear_def)
  next
    case False
    then show ?thesis using Value split seg by (simp add: formatReleaseYear_def)
  qed
qed (simp_all add: formatReleaseYear_def)

lemma toFixed1_zero: "number_toFixed1 0 = 0"
  by code_simp

lemma http_error_message:
  "js_trim (''TMDB request failed with status '' @ n @ ''.'' @ d)
     = ''TMDB request failed with status '' @ n @ ''.'' @ js_trimEnd d"
proof -
  have "js_trimStart (''TMDB request failed with status '' @ n @ ''.'' @ d)
          = ''TMDB request failed with status '' @ n @ ''.'' @ d"
    using js_trimStart_T [of "''MDB request failed with status '' @ n @ ''.'' @ d"] by simp
  moreover have "js_trimEnd ((''TMDB request failed with status '' @ n) @ CHR ''.'' # d)
          = (''TMDB request failed with status '' @ n) @ CHR ''.'' # js_trimEnd d"
    by (rule js_trimEnd_after_dot)
  ultimately show ?thesis by (simp add: js_trim_def)
qed

lemma strip_one_None:
  "(\<forall>w \<in> set ws. \<not> prefix w s) \<Longrightarrow> strip_one ws s = None"
  by (induction ws) auto

lemma js_trimEnd_unchanged:
  assumes "\<forall>w \<in> set js_whitespace. \<not> suffix w s"
  shows "js_trimEnd s = s"
proof -
  have "\<forall>w \<in> set (map rev js_whitespace). \<not> prefix w (rev s)"
    using assms by (auto simp: suffix_to_prefix)
  then have "strip_one (map rev js_whitespace) (rev s) = None"
    by (rule strip_one_None)
  then show ?thesis
    by (simp add: js_trimEnd_def strip_all.simps [of _ "rev s"])
qed

lemma space_then_message:
  assumes "m \<noteq> []" and "\<forall>w \<in> set js_whitespace. \<not> suffix w m"
  shows "js_trimEnd ('' '' @ m) = '' '' @ m"
proof (rule js_trimEnd_unchanged, rule ballI)
  fix w assume w: "w \<in> set js_whitespace"
  then have "\<not> suffix w m" using assms(2) by simp
  moreover have "w \<noteq> CHR '' '' # m"
    using w assms(1) by (auto simp: js_whitespace_def)
  ultimately show "\<not> suffix w ('' '' @ m)"
    by (simp add: suffix_Cons)
qed

lemma handler_shape:
  "((\<exists>e. e \<noteq> [] \<and> props (fst (searchMoviesHandler w q))
                       = \<lparr>query = q, movies = [], error = Some e\<rparr>)
    \<or> (\<exists>ms. ms \<noteq> [] \<and> props (fst (searchMoviesHandler w q))
                       = \<lparr>query = q, movies = ms, error = None\<rparr>))
   \<and> ((\<exists>e. e \<noteq> [] \<and> props (fst (edge_search_movies w q))
                       = \<lparr>query = q, movies = [], error = Some e\<rparr>)
    \<or> (\<exists>ms. ms \<noteq> [] \<and> props (fst (edge_search_movies w q))
                       = \<lparr>query = q, movies = ms, error = None\<rparr>))"
proof (cases "apiKey w = None \<or> apiKey w = Some []")
  case True
  then show ?thesis
    by (simp add: handler_missing_key missing_key_response_def edge_missing_key_def
        buildSearchMoviesWidgetResponse_def)
next
  case False
  then obtain key where key: "apiKey w = Some key" "key \<noteq> []"
    by auto
  note unfold = handler_with_key [OF key]
  show ?thesis
  proof (cases "fetch w (search_request key q)")
    case (FetchThrows t)
    then show ?thesis
      by (simp add: unfold try_fetch_throws search_catch_def edge_catch_def
          buildSearchMoviesWidgetResponse_def)
  next
    case (FetchResponse r)
    show ?thesis
    proof (cases "response_ok r")
      case False
      have "js_trim (''TMDB request failed with status '' @ string_of_nat (status r)
                @ ''.'' @ error_details r) \<noteq> []"
        by (simp only: http_error_message) simp
      then show ?thesis
        using FetchResponse False
        by (simp add: unfold try_http_failure)
    next
      case ok: True
      show ?thesis
      proof (cases "json_body r")
        case (BodyThrows t)
        then show ?thesis
          using FetchResponse ok
          by (simp add: unfold try_body_throws search_catch_def edge_catch_def
              buildSearchMoviesWidgetResponse_def)
      next
        case (BodyJson j)
        show ?thesis
        proof (cases "tmdbSearchResponseSchema_parse j")
          case None
          then show ?thesis
            using FetchResponse ok BodyJson
            by (simp add: unfold try_schema_rejects search_catch_def edge_catch_def
                buildSearchMoviesWidgetResponse_def)
        next
          case (Some payload)
          show ?thesis
          proof (cases "results payload = []")
            case True
            then show ?thesis
              using FetchResponse ok BodyJson Some
              by (simp add: unfold try_no_results)
          next
            case False
            then show ?thesis
              using FetchResponse ok BodyJson Some
              by (simp add: unfold try_found)
          qed
        qed
      qed
    qed
  qed
qed

lemma error_details_message:
  assumes "json_body r = BodyJson b" and "status_message b = Some (JStr m)" and "m \<noteq> []"
  shows "error_details r = '' '' @ m"
  using assms by (simp add: error_details_def)

lemma error_details_throws:
  assumes "json_body r = BodyThrows t"
  shows "error_details r = []"
  using assms by (simp add: error_details_def)

lemma error_details_no_message:
  assumes "json_body r = BodyJson b"
    and "\<not> (\<exists>m. status_message b = Some (JStr m) \<and> m \<noteq> [])"
  shows "error_details r = []"
  using assms by (auto simp: error_details_def split: option.splits json.splits)

lemma handler_http_failure:
  assumes "apiKey w = Some key" and "key \<noteq> []"
    and "fetch w (search_request key q) = FetchResponse r" and "\<not> response_ok r"
  shows "fst (searchMoviesHandler w q) =
           \<lparr>text_output = ''Movie search failed due to an external API error.'',
            props = \<lparr>query = q, movies = [],
                     error = Some (''TMDB request failed with status ''
                               @ string_of_nat (status r) @ ''.''
                               @ js_trimEnd (error_details r))\<rparr>\<rparr>"
    and "fst (edge_search_movies w q) =
           \<lparr>text_output = ''Movie search failed due to an external API error.'',
            props = \<lparr>query = q, movies = [],
                     error = Some (''TMDB request failed with status ''
                               @ string_of_nat (status r) @ ''.'')\<rparr>\<rparr>"
proof -
  have "search_try w key q =
           Inr \<lparr>text_output = ''Movie search failed due to an external API error.'',
                props = \<lparr>query = q, movies = [],
                         error = Some (js_trim (''TMDB request failed with status ''
                                   @ string_of_nat (status r) @ ''.'' @ error_details r))\<rparr>\<rparr>"
    using assms(3,4) by (rule try_http_failure(1))
  then have "search_try w key q =
           Inr \<lparr>text_output = ''Movie search failed due to an external API error.'',
                props = \<lparr>query = q, movies = [],
                         error = Some (''TMDB request failed with status ''
                               @ string_of_nat (status r) @ ''.''
                               @ js_trimEnd (error_details r))\<rparr>\<rparr>"
    by (simp only: http_error_message)
  then show "fst (searchMoviesHandler w q) =
           \<lparr>text_output = ''Movie search failed due to an external API error.'',
            props = \<lparr>query = q, movies = [],
                     error = Some (''TMDB request failed with status ''
                               @ string_of_nat (status r) @ ''.''
                               @ js_trimEnd (error_details r))\<rparr>\<rparr>"
    by (simp add: handler_with_key(1) [OF assms(1,2)])
  show "fst (edge_search_movies w q) =
           \<lparr>text_output = ''Movie search failed due to an external API error.'',
            props = \<lparr>query = q, movies = [],
                     error = Some (''TMDB request failed with status ''
                               @ string_of_nat (status r) @ ''.'')\<rparr>\<rparr>"
    using try_http_failure(2) [OF assms(3,4)]
    by (simp add: handler_with_key(2) [OF assms(1,2)])
qed

subsection \<open>The claims\<close>

text \<open>
  C1. When the key is configured, the response is 2xx and its body is an object whose
  \<open>results\<close> array has \<open>n\<close> entries that the schema accepts, the movies of the
  outcome are \<open>min 3 n\<close> many, and the \<open>i\<close>-th of them is the card of the \<open>i\<close>-th
  upstream entry. Both handlers return the same movies.
\<close>

theorem search_movies_first_three:
  assumes "apiKey w = Some key" and "key \<noteq> []"
    and "fetch w (search_request key q) = FetchResponse r" and "response_ok r"
    and "json_body r = BodyJson (JObj ms)"
    and "js_get ms ''results'' = Some (JArr items)"
    and "parse_all items = Some rs"
  shows "length (movies (props (fst (searchMoviesHandler w q)))) = min 3 (length items)
       \<and> (\<forall>i < min 3 (length items).
            \<exists>m. parse_tmdb_movie (items ! i) = Some m
              \<and> movies (props (fst (searchMoviesHandler w q))) ! i = mapTmdbMovieToCard m)
       \<and> movies (props (fst (edge_search_movies w q)))
           = movies (props (fst (searchMoviesHandler w q)))"
proof -
  have parsed: "tmdbSearchResponseSchema_parse (JObj ms) = Some \<lparr>results = rs\<rparr>"
    using assms(6,7) by (rule schema_parse_results)
  have mv: "movies (props (fst (searchMoviesHandler w q))) = map mapTmdbMovieToCard (take 3 rs)"
    using handler_movies_of_results(1) [OF assms(1-5) parsed] by simp
  have mv_edge: "movies (props (fst (edge_search_movies w q))) = map mapTmdbMovieToCard (take 3 rs)"
    using handler_movies_of_results(2) [OF assms(1-5) parsed] by simp
  have len: "length rs = length items"
    and nth: "\<forall>i < length items. parse_tmdb_movie (items ! i) = Some (rs ! i)"
    using parse_all_nth [OF assms(7)] by simp_all
  have "length (movies (props (fst (searchMoviesHandler w q)))) = min 3 (length items)"
    using mv len by (simp add: min.commute)
  moreover have "\<forall>i < min 3 (length items).
      \<exists>m. parse_tmdb_movie (items ! i) = Some m
        \<and> movies (props (fst (searchMoviesHandler w q))) ! i = mapTmdbMovieToCard m"
  proof (intro allI impI)
    fix i assume i: "i < min 3 (length items)"
    then have "parse_tmdb_movie (items ! i) = Some (rs ! i)"
      using nth by simp
    moreover have "movies (props (fst (searchMoviesHandler w q))) ! i = mapTmdbMovieToCard (rs ! i)"
      using i len mv by simp
    ultimately show "\<exists>m. parse_tmdb_movie (items ! i) = Some m
        \<and> movies (props (fst (searchMoviesHandler w q))) ! i = mapTmdbMovieToCard m"
      by blast
  qed
  ultimately show ?thesis using mv mv_edge by simp
qed

theorem search_movies_first_three_witness:
  "length (movies (props (fst (searchMoviesHandler
       (world_with (Some ''key'')
          (respond 200 (results_body [full_entry 1, bare_entry 2, full_entry 3, bare_entry 4])))
       ''matrix'')))) = 3
   \<and> card_id (movies (props (fst (searchMoviesHandler
       (world_with (Some ''key'')
          (respond 200 (results_body [full_entry 1, bare_entry 2, full_entry 3, bare_entry 4])))
       ''matrix''))) ! 1) = 2"
proof -
  let ?items = "[full_entry 1, bare_entry 2, full_entry 3, bare_entry 4]"
  let ?w = "world_with (Some ''key'') (respond 200 (results_body ?items))"
  have a: "apiKey ?w = Some ''key''" and b: "''key'' \<noteq> []"
    by (simp_all add: world_with_def)
  have c: "fetch ?w (search_request ''key'' ''matrix'')
             = FetchResponse \<lparr>status = 200, json_body = results_body ?items\<rparr>"
    by (simp add: world_with_def respond_def)
  have d: "json_body \<lparr>status = 200, json_body = results_body ?items\<rparr>
             = BodyJson (JObj [(''results'', JArr ?items)])"
    by (simp add: results_body_def)
  have e: "js_get [(''results'', JArr ?items)] ''results'' = Some (JArr ?items)"
    by (simp add: js_get_def)
  have f: "parse_all ?items = Some (the (parse_all ?items))"
    by (simp add: full_entry_parses bare_entry_parses)
  note inst = search_movies_first_three [OF a b c ok_200 d e f]
  have len: "length (movies (props (fst (searchMoviesHandler ?w ''matrix'')))) = 3"
    using inst by simp
  have "1 < min 3 (length ?items)"
    by simp
  then have "\<exists>m. parse_tmdb_movie (?items ! 1) = Some m
          \<and> movies (props (fst (searchMoviesHandler ?w ''matrix''))) ! 1 = mapTmdbMovieToCard m"
    using inst by blast
  then have "card_id (movies (props (fst (searchMoviesHandler ?w ''matrix''))) ! 1) = 2"
    by (auto simp: bare_entry_parses mapTmdbMovieToCard_def)
  with len show ?thesis by simp
qed

text \<open>
C2, as stated, fails: on a well-formed empty result set the \<open>error\<close> member is a fixed
  sentence, which does not contain the text of the query (here \<open>Zzz\<close>).
\<close>

theorem no_results_error_is_fixed_text_counterexample:
  "error (props (fst (searchMoviesHandler
      (world_with (Some ''key'') (respond 200 (results_body []))) ''Zzz'')))
     = Some ''No movies found for this query.''
   \<and> \<not> sublist ''Zzz'' ''No movies found for this query.''"
proof -
  let ?w = "world_with (Some ''key'') (respond 200 (results_body []))"
  have "tmdbSearchResponseSchema_parse (JObj [(''results'', JArr [])]) = Some \<lparr>results = []\<rparr>"
    by (simp add: js_get_def)
  then have "search_try ?w ''key'' ''Zzz'' =
      Inr \<lparr>text_output = ''No movies found for '' @ dquote @ ''Zzz'' @ dquote @ ''.'',
           props = \<lparr>query = ''Zzz'', movies = [],
                    error = Some ''No movies found for this query.''\<rparr>\<rparr>"
    by (intro try_no_results(1) [where r = "\<lparr>status = 200, json_body = results_body []\<rparr>"
          and j = "JObj [(''results'', JArr [])]" and payload = "\<lparr>results = []\<rparr>"])
       (simp_all add: world_with_simps respond_def response_ok_def results_body_def)
  then have "error (props (fst (searchMoviesHandler ?w ''Zzz''))) = Some ''No movies found for this query.''"
    by (simp add: handler_with_key(1) [of ?w "''key''"] world_with_simps)
  moreover have "\<not> sublist ''Zzz'' ''No movies found for this query.''"
    by (simp add: sublist_code)
  ultimately show ?thesis by simp
qed

text \<open>
C2, amended. On a well-formed empty result set the payload carries the query, no
  movie and the fixed error sentence "No movies found for this query."; the exact text
  of the query is in the payload's \<open>query\<close> member and, between double quotes, in the
  text line. Both handlers return the same result.
\<close>

theorem no_results_outcome:
  assumes "apiKey w = Some key" and "key \<noteq> []"
    and "fetch w (search_request key q) = FetchResponse r" and "response_ok r"
    and "json_body r = BodyJson (JObj ms)"
    and "js_get ms ''results'' = Some (JArr [])"
  shows "props (fst (searchMoviesHandler w q))
           = \<lparr>query = q, movies = [], error = Some ''No movies found for this query.''\<rparr>
       \<and> text_output (fst (searchMoviesHandler w q))
           = ''No movies found for '' @ dquote @ q @ dquote @ ''.''
       \<and> edge_search_movies w q = searchMoviesHandler w q"
proof -
  have parsed: "tmdbSearchResponseSchema_parse (JObj ms) = Some \<lparr>results = []\<rparr>"
    using assms(6) by simp
  have "search_try w key q =
      Inr \<lparr>text_output = ''No movies found for '' @ dquote @ q @ dquote @ ''.'',
           props = \<lparr>query = q, movies = [],
                    error = Some ''No movies found for this query.''\<rparr>\<rparr>"
    using try_no_results(1) [OF assms(3-5) parsed] by simp
  moreover have "edge_try w key q =
      Inr \<lparr>text_output = ''No movies found for '' @ dquote @ q @ dquote @ ''.'',
           props = \<lparr>query = q, movies = [],
                    error = Some ''No movies found for this query.''\<rparr>\<rparr>"
    using try_no_results(2) [OF assms(3-5) parsed] by simp
  ultimately show ?thesis
    by (simp add: handler_with_key [OF assms(1,2)])
qed

theorem no_results_outcome_witness:
  "props (fst (searchMoviesHandler
      (world_with (Some ''key'') (respond 200 (results_body []))) ''Zzz''))
     = \<lparr>query = ''Zzz'', movies = [], error = Some ''No movies found for this query.''\<rparr>
   \<and> text_output (fst (searchMoviesHandler
      (world_with (Some ''key'') (respond 200 (results_body []))) ''Zzz''))
     = ''No movies found for '' @ dquote @ ''Zzz'' @ dquote @ ''.''"
proof -
  let ?w = "world_with (Some ''key'') (respond 200 (results_body []))"
  have a: "apiKey ?w = Some ''key''" and b: "''key'' \<noteq> []"
    by (simp_all add: world_with_simps)
  have c: "fetch ?w (search_request ''key'' ''Zzz'')
             = FetchResponse \<lparr>status = 200, json_body = results_body []\<rparr>"
    by (simp add: world_with_simps respond_def)
  have d: "json_body \<lparr>status = 200, json_body = results_body []\<rparr>
             = BodyJson (JObj [(''results'', JArr [])])"
    by (simp add: results_body_def)
  show ?thesis
    using no_results_outcome [OF a b c ok_200 d js_get_results] by simp
qed

text \<open>
C3. When the key is undefined (or the empty string, which \<open>!apiKey\<close> treats alike)
  the handler gives no request to \<open>fetch\<close>, returns no movie, and its error sentence
  names \<open>TMDB_API_KEY\<close>. The edge handler does the same, with the same payload.
\<close>

theorem missing_key_no_network_call:
  assumes "apiKey w = None \<or> apiKey w = Some []"
  shows "snd (searchMoviesHandler w q) = []
       \<and> movies (props (fst (searchMoviesHandler w q))) = []
       \<and> error (props (fst (searchMoviesHandler w q)))
           = Some ''TMDB API key is missing. Set TMDB_API_KEY and try again.''
       \<and> sublist ''TMDB_API_KEY'' ''TMDB API key is missing. Set TMDB_API_KEY and try again.''
       \<and> snd (edge_search_movies w q) = []
       \<and> props (fst (edge_search_movies w q)) = props (fst (searchMoviesHandler w q))"
proof -
  have "sublist ''TMDB_API_KEY'' ''TMDB API key is missing. Set TMDB_API_KEY and try again.''"
    by code_simp
  then show ?thesis
    using handler_missing_key [OF assms]
    by (simp add: missing_key_response_def edge_missing_key_def
        buildSearchMoviesWidgetResponse_def)
qed

theorem missing_key_no_network_call_witness:
  "snd (searchMoviesHandler (world_with None (respond 200 (results_body [full_entry 1]))) ''matrix'') = []
   \<and> movies (props (fst (searchMoviesHandler
         (world_with None (respond 200 (results_body [full_entry 1]))) ''matrix''))) = []"
  using missing_key_no_network_call
    [of "world_with None (respond 200 (results_body [full_entry 1]))" "''matrix''"]
  by (simp add: world_with_simps)

text \<open>
  C5, as stated, fails on its side condition. The \<open>catch\<close> clause asks whether the thrown
  value is an \<open>Error\<close>, not whether it carries a message: an \<open>Error\<close> with the empty
  message gives the bare prefix, without "Unknown network error", and a thrown value
  that is not an \<open>Error\<close> gives the fixed string even when it has a message of its own.
\<close>

theorem error_message_by_instance_counterexample:
  "error (props (fst (searchMoviesHandler
      (world_with (Some ''key'') (FetchThrows (ErrorInstance []))) ''matrix'')))
     = Some ''Unable to fetch movie results right now: ''
   \<and> \<not> sublist ''Unknown network error'' ''Unable to fetch movie results right now: ''
   \<and> error (props (fst (searchMoviesHandler
      (world_with (Some ''key'') (FetchThrows (OtherValue (Some ''socket hang up''))))
      ''matrix'')))
     = Some ''Unable to fetch movie results right now: Unknown network error''
   \<and> \<not> sublist ''socket hang up''
         ''Unable to fetch movie results right now: Unknown network error''"
  by code_simp

text \<open>
  C5, amended. With the key configured, when \<open>fetch\<close> throws, or a 2xx response's
  \<open>json()\<close> throws (a body that is not JSON), or the schema rejects the parsed body (the
  thrown value is then the validation library's error), the result is the
  network-or-parsing one: its text line is the network/parsing sentence and not the
  external-API one, it has no movie, and its error is
  "Unable to fetch movie results right now: " followed by the message of the thrown
  value when that value is an \<open>Error\<close> (be the message empty), and by
  "Unknown network error" when it is not an \<open>Error\<close> (whatever message it has). Both
  handlers return the same result.
\<close>

theorem network_or_parse_failure:
  assumes "apiKey w = Some key" and "key \<noteq> []"
    and "fetch w (search_request key q) = FetchThrows t
       \<or> (\<exists>r. fetch w (search_request key q) = FetchResponse r \<and> response_ok r
            \<and> (json_body r = BodyThrows t
               \<or> (\<exists>j. json_body r = BodyJson j
                    \<and> tmdbSearchResponseSchema_parse j = None
                    \<and> t = ErrorInstance (zod_message w j))))"
  shows "fst (searchMoviesHandler w q)
           = \<lparr>text_output = ''Movie search failed due to a network or parsing error.'',
              props = \<lparr>query = q, movies = [],
                       error = Some (''Unable to fetch movie results right now: ''
                                 @ (case t of ErrorInstance m \<Rightarrow> m
                                    | OtherValue _ \<Rightarrow> ''Unknown network error''))\<rparr>\<rparr>
       \<and> text_output (fst (searchMoviesHandler w q))
           \<noteq> ''Movie search failed due to an external API error.''
       \<and> edge_search_movies w q = searchMoviesHandler w q"
proof -
  have thrown: "search_try w key q = Inl t \<and> edge_try w key q = Inl t"
    using assms(3)
  proof (elim disjE exE conjE)
    assume "fetch w (search_request key q) = FetchThrows t"
    then show ?thesis by (simp add: try_fetch_throws)
  next
    fix r
    assume "fetch w (search_request key q) = FetchResponse r" "response_ok r"
      "json_body r = BodyThrows t"
    then show ?thesis by (simp add: try_body_throws)
  next
    fix r j
    assume "fetch w (search_request key q) = FetchResponse r" "response_ok r"
      "json_body r = BodyJson j" "tmdbSearchResponseSchema_parse j = None"
      "t = ErrorInstance (zod_message w j)"
    then show ?thesis by (simp add: try_schema_rejects)
  qed
  have msg: "thrown_message t
      = (case t of ErrorInstance m \<Rightarrow> m | OtherValue _ \<Rightarrow> ''Unknown network error'')"
    by (cases t) simp_all
  show ?thesis
    using thrown msg
    by (simp add: handler_with_key [OF assms(1,2)] search_catch_def edge_catch_def
        buildSearchMoviesWidgetResponse_def)
qed

theorem network_or_parse_failure_witness:
  "props (fst (searchMoviesHandler
      (world_with (Some ''key'')
         (respond 200 (BodyThrows (ErrorInstance ''Unexpected end of JSON input''))))
      ''matrix''))
     = \<lparr>query = ''matrix'', movies = [],
        error = Some ''Unable to fetch movie results right now: Unexpected end of JSON input''\<rparr>
   \<and> props (fst (searchMoviesHandler
      (world_with (Some ''key'') (FetchThrows (OtherValue None))) ''matrix''))
     = \<lparr>query = ''matrix'', movies = [],
        error = Some ''Unable to fetch movie results right now: Unknown network error''\<rparr>
   \<and> props (fst (searchMoviesHandler
      (world_with (Some ''key'') (respond 200 (BodyJson (JObj [(''results'', JArr [JObj [(''id'', JNum 7)]])]))))
      ''matrix''))
     = \<lparr>query = ''matrix'', movies = [],
        error = Some ''Unable to fetch movie results right now: Invalid input''\<rparr>"
proof -
  let ?t1 = "ErrorInstance ''Unexpected end of JSON input''"
  let ?w1 = "world_with (Some ''key'') (respond 200 (BodyThrows ?t1))"
  let ?w2 = "world_with (Some ''key'') (FetchThrows (OtherValue None))"
  let ?j3 = "JObj [(''results'', JArr [JObj [(''id'', JNum 7)]])]"
  let ?w3 = "world_with (Some ''key'') (respond 200 (BodyJson ?j3))"
  have k: "''key'' \<noteq> []" by simp
  have h1: "fetch ?w1 (search_request ''key'' ''matrix'') = FetchThrows ?t1
       \<or> (\<exists>r. fetch ?w1 (search_request ''key'' ''matrix'') = FetchResponse r \<and> response_ok r
            \<and> (json_body r = BodyThrows ?t1
               \<or> (\<exists>j. json_body r = BodyJson j
                    \<and> tmdbSearchResponseSchema_parse j = None
                    \<and> ?t1 = ErrorInstance (zod_message ?w1 j))))"
    by (simp add: world_with_simps respond_def response_ok_def)
  have h2: "fetch ?w2 (search_request ''key'' ''matrix'') = FetchThrows (OtherValue None)
       \<or> (\<exists>r. fetch ?w2 (search_request ''key'' ''matrix'') = FetchResponse r \<and> response_ok r
            \<and> (json_body r = BodyThrows (OtherValue None)
               \<or> (\<exists>j. json_body r = BodyJson j
                    \<and> tmdbSearchResponseSchema_parse j = None
                    \<and> OtherValue None = ErrorInstance (zod_message ?w2 j))))"
    by (simp add: world_with_simps)
  have rej: "tmdbSearchResponseSchema_parse ?j3 = None"
    by (simp add: js_get_def)
  have h3: "fetch ?w3 (search_request ''key'' ''matrix'') = FetchThrows (ErrorInstance ''Invalid input'')
       \<or> (\<exists>r. fetch ?w3 (search_request ''key'' ''matrix'') = FetchResponse r \<and> response_ok r
            \<and> (json_body r = BodyThrows (ErrorInstance ''Invalid input'')
               \<or> (\<exists>j. json_body r = BodyJson j
                    \<and> tmdbSearchResponseSchema_parse j = None
                    \<and> ErrorInstance ''Invalid input'' = ErrorInstance (zod_message ?w3 j))))"
    using rej by (simp add: world_with_simps respond_def response_ok_def)
  show ?thesis
    using network_or_parse_failure [OF world_with_simps(1) k h1]
      network_or_parse_failure [OF world_with_simps(1) k h2]
      network_or_parse_failure [OF world_with_simps(1) k h3]
    by simp
qed

text \<open>
C6. When the key is configured, the response is 2xx and its \<open>results\<close> array has
  three or more entries, all accepted by the schema, the payload has no \<open>error\<close>
  member, exactly three movies, and the text line is
  "Found 3 movie result(s) for "<query>"." with the query as given.
\<close>

theorem three_or_more_results:
  assumes "apiKey w = Some key" and "key \<noteq> []"
    and "fetch w (search_request key q) = FetchResponse r" and "response_ok r"
    and "json_body r = BodyJson (JObj ms)"
    and "js_get ms ''results'' = Some (JArr items)"
    and "parse_all items = Some rs"
    and "3 \<le> length items"
  shows "error (props (fst (searchMoviesHandler w q))) = None
       \<and> length (movies (props (fst (searchMoviesHandler w q)))) = 3
       \<and> text_output (fst (searchMoviesHandler w q))
           = ''Found 3 movie result(s) for '' @ dquote @ q @ dquote @ ''.''
       \<and> query (props (fst (searchMoviesHandler w q))) = q
       \<and> edge_search_movies w q = searchMoviesHandler w q"
proof -
  have parsed: "tmdbSearchResponseSchema_parse (JObj ms) = Some \<lparr>results = rs\<rparr>"
    using assms(6,7) by (rule schema_parse_results)
  have len: "length rs = length items"
    using parse_all_nth [OF assms(7)] by simp
  then have ne: "results \<lparr>results = rs\<rparr> \<noteq> []" and m3: "min 3 (length rs) = 3"
    using assms(8) by auto
  show ?thesis
    using try_found [OF assms(3-5) parsed ne] m3
    by (simp add: handler_with_key [OF assms(1,2)] string_of_nat_3)
qed

theorem three_or_more_results_witness:
  "error (props (fst (searchMoviesHandler
       (world_with (Some ''key'')
          (respond 200 (results_body [full_entry 1, bare_entry 2, full_entry 3, bare_entry 4])))
       ''matrix''))) = None
   \<and> text_output (fst (searchMoviesHandler
       (world_with (Some ''key'')
          (respond 200 (results_body [full_entry 1, bare_entry 2, full_entry 3, bare_entry 4])))
       ''matrix'')) = ''Found 3 movie result(s) for '' @ dquote @ ''matrix'' @ dquote @ ''.''"
proof -
  let ?items = "[full_entry 1, bare_entry 2, full_entry 3, bare_entry 4]"
  let ?w = "world_with (Some ''key'') (respond 200 (results_body ?items))"
  have a: "apiKey ?w = Some ''key''" and b: "''key'' \<noteq> []"
    by (simp_all add: world_with_simps)
  have c: "fetch ?w (search_request ''key'' ''matrix'')
             = FetchResponse \<lparr>status = 200, json_body = results_body ?items\<rparr>"
    by (simp add: world_with_simps respond_def)
  have d: "json_body \<lparr>status = 200, json_body = results_body ?items\<rparr>
             = BodyJson (JObj [(''results'', JArr ?items)])"
    by (simp add: results_body_def)
  have f: "parse_all ?items = Some (the (parse_all ?items))"
    by (simp add: full_entry_parses bare_entry_parses)
  have g: "3 \<le> length ?items"
    by simp
  show ?thesis
    using three_or_more_results [OF a b c ok_200 d js_get_results f g] by simp
qed

text \<open>
C7. The \<open>releaseYear\<close> of a card is the part of \<open>release_date\<close> before its first
  \<open>-\<close> (the whole string when it has none), and it is "N/A" when \<open>release_date\<close> is
  undefined, null or empty, or when that part is empty.
\<close>

theorem release_year_before_first_dash:
  "releaseYear (mapTmdbMovieToCard m) =
     (case release_date m of
        Undefined \<Rightarrow> ''N/A''
      | Null \<Rightarrow> ''N/A''
      | Value d \<Rightarrow>
          (if d = [] \<or> takeWhile (\<lambda>c. c \<noteq> CHR ''-'') d = [] then ''N/A''
           else takeWhile (\<lambda>c. c \<noteq> CHR ''-'') d))"
  by (cases "release_date m") (auto simp: mapTmdbMovieToCard_def formatReleaseYear_eq)

theorem release_year_before_first_dash_witness:
  "releaseYear (mapTmdbMovieToCard
      \<lparr>tmdb_id = 603, tmdb_title = ''The Matrix'', release_date = Value ''1999-03-31'',
       vote_average = Null, poster_path = Null\<rparr>) = ''1999''
   \<and> releaseYear (mapTmdbMovieToCard
      \<lparr>tmdb_id = 603, tmdb_title = ''The Matrix'', release_date = Value ''2020'',
       vote_average = Null, poster_path = Null\<rparr>) = ''2020''
   \<and> releaseYear (mapTmdbMovieToCard
      \<lparr>tmdb_id = 603, tmdb_title = ''The Matrix'', release_date = Value ''-05-01'',
       vote_average = Null, poster_path = Null\<rparr>) = ''N/A''
   \<and> releaseYear (mapTmdbMovieToCard
      \<lparr>tmdb_id = 603, tmdb_title = ''The Matrix'', release_date = Undefined,
       vote_average = Null, poster_path = Null\<rparr>) = ''N/A''"
  using release_year_before_first_dash
    [of "\<lparr>tmdb_id = 603, tmdb_title = ''The Matrix'', release_date = Value ''1999-03-31'',
       vote_average = Null, poster_path = Null\<rparr>"]
    release_year_before_first_dash
    [of "\<lparr>tmdb_id = 603, tmdb_title = ''The Matrix'', release_date = Value ''2020'',
       vote_average = Null, poster_path = Null\<rparr>"]
    release_year_before_first_dash
    [of "\<lparr>tmdb_id = 603, tmdb_title = ''The Matrix'', release_date = Value ''-05-01'',
       vote_average = Null, poster_path = Null\<rparr>"]
    release_year_before_first_dash
    [of "\<lparr>tmdb_id = 603, tmdb_title = ''The Matrix'', release_date = Undefined,
       vote_average = Null, poster_path = Null\<rparr>"]
  by simp

text \<open>
  C8. The \<open>rating\<close> of a card is 0 when \<open>vote_average\<close> is undefined or null. Otherwise
  it is \<open>vote_average\<close> rounded to one decimal, as a double: below \<open>10^21\<close> in absolute
  value there is a whole number of tenths, at distance at most one twentieth from
  \<open>vote_average\<close>, of which the rating is the nearest double, less than one part in
  \<open>2^53\<close> away from it; from \<open>10^21\<close> on the rating is \<open>vote_average\<close> itself, and a
  double of that size is a whole number.
\<close>

theorem rating_rounded_to_one_decimal:
  "(vote_average m = Undefined \<or> vote_average m = Null
      \<longrightarrow> rating (mapTmdbMovieToCard m) = 0)
   \<and> (vote_average m = Value v \<and> \<bar>v\<bar> < 10 ^ 21
      \<longrightarrow> (\<exists>n::int. \<bar>of_int n / 10 - v\<bar> \<le> 1 / 20
             \<and> rating (mapTmdbMovieToCard m) = round_double (of_int n / 10)
             \<and> \<bar>rating (mapTmdbMovieToCard m) - of_int n / 10\<bar>
                 \<le> \<bar>of_int n / 10\<bar> / 2 ^ 53))
   \<and> (vote_average m = Value v \<and> 10 ^ 21 \<le> \<bar>v\<bar>
      \<longrightarrow> rating (mapTmdbMovieToCard m) = v
        \<and> (round_double v = v \<longrightarrow> (\<exists>n::int. v = of_int n)))"
proof (intro conjI impI)
  assume "vote_average m = Undefined \<or> vote_average m = Null"
  then show "rating (mapTmdbMovieToCard m) = 0"
    by (auto simp: mapTmdbMovieToCard_def toFixed1_zero)
next
  assume v: "vote_average m = Value v \<and> \<bar>v\<bar> < 10 ^ 21"
  then have r: "rating (mapTmdbMovieToCard m) = number_toFixed1 v"
    by (simp add: mapTmdbMovieToCard_def)
  obtain n :: int where near: "\<bar>of_int n / 10 - v\<bar> \<le> 1 / 20"
    and val: "number_toFixed1 v = round_double (of_int n / 10)"
    using v toFixed1_decimal [of v] by blast
  have "\<bar>rating (mapTmdbMovieToCard m) - of_int n / 10\<bar> \<le> \<bar>of_int n / 10\<bar> / 2 ^ 53"
    unfolding r val by (rule round_double_tenths)
  with near r val
  show "\<exists>n::int. \<bar>of_int n / 10 - v\<bar> \<le> 1 / 20
          \<and> rating (mapTmdbMovieToCard m) = round_double (of_int n / 10)
          \<and> \<bar>rating (mapTmdbMovieToCard m) - of_int n / 10\<bar> \<le> \<bar>of_int n / 10\<bar> / 2 ^ 53"
    by auto
next
  assume v: "vote_average m = Value v \<and> 10 ^ 21 \<le> \<bar>v\<bar>"
  then show "rating (mapTmdbMovieToCard m) = v"
    by (simp add: mapTmdbMovieToCard_def toFixed1_large)
next
  assume v: "vote_average m = Value v \<and> 10 ^ 21 \<le> \<bar>v\<bar>" and d: "round_double v = v"
  from v have "\<exists>n::int. round_double v = of_int n"
    by (intro round_double_large_int) simp
  then show "\<exists>n::int. v = of_int n"
    by (simp only: d)
qed

theorem rating_rounded_to_one_decimal_witness:
  "rating (mapTmdbMovieToCard
      \<lparr>tmdb_id = 603, tmdb_title = ''The Matrix'', release_date = Null,
       vote_average = Value (round_double (7666 / 1000)), poster_path = Null\<rparr>)
     = round_double (77 / 10)
   \<and> round_double (7666 / 1000) = 2157787171463889 / 281474976710656
   \<and> round_double (77 / 10) = 8669429282688205 / 1125899906842624
   \<and> rating (mapTmdbMovieToCard
      \<lparr>tmdb_id = 603, tmdb_title = ''The Matrix'', release_date = Null,
       vote_average = Null, poster_path = Null\<rparr>) = 0
   \<and> rating (mapTmdbMovieToCard
      \<lparr>tmdb_id = 603, tmdb_title = ''The Matrix'', release_date = Null,
       vote_average = Value (4503599627370497 / 4), poster_path = Null\<rparr>)
     = 4503599627370497 / 4"
proof -
  let ?b = "4503599627370497 / 4 :: rat"
  let ?l = "\<lparr>tmdb_id = 603, tmdb_title = ''The Matrix'', release_date = Null,
       vote_average = Value ?b, poster_path = Null\<rparr>"
  have "\<exists>n::int. \<bar>of_int n / 10 - ?b\<bar> \<le> 1 / 20
      \<and> rating (mapTmdbMovieToCard ?l) = round_double (of_int n / 10)"
    using rating_rounded_to_one_decimal [of ?l ?b] by auto
  then obtain k :: int where knear: "\<bar>of_int k / 10 - ?b\<bar> \<le> 1 / 20"
    and kval: "rating (mapTmdbMovieToCard ?l) = round_double (of_int k / 10)"
    by blast
  have "(11258999068426241 :: rat) < of_int k" and "of_int k < (11258999068426244 :: rat)"
    using knear by linarith+
  then have "11258999068426241 < k" and "k < 11258999068426244"
    by linarith+
  then have "k = 11258999068426242 \<or> k = 11258999068426243"
    by linarith
  moreover have "round_double (11258999068426242 / 10) = ?b"
    and "round_double (11258999068426243 / 10) = ?b"
    by code_simp+
  ultimately have rb: "rating (mapTmdbMovieToCard ?l) = ?b"
    using kval by auto
  let ?v = "2157787171463889 / 281474976710656 :: rat"
  let ?m = "\<lparr>tmdb_id = 603, tmdb_title = ''The Matrix'', release_date = Null,
       vote_average = Value ?v, poster_path = Null\<rparr>"
  let ?z = "\<lparr>tmdb_id = 603, tmdb_title = ''The Matrix'', release_date = Null,
       vote_average = Null :: rat optional_nullable, poster_path = Null\<rparr>"
  have in_v: "round_double (7666 / 1000) = ?v"
    by code_simp
  have out_v: "round_double (77 / 10) = 8669429282688205 / 1125899906842624"
    by code_simp
  have "\<exists>n::int. \<bar>of_int n / 10 - ?v\<bar> \<le> 1 / 20
      \<and> rating (mapTmdbMovieToCard ?m) = round_double (of_int n / 10)"
    using rating_rounded_to_one_decimal [of ?m ?v] by auto
  then obtain n :: int where near: "\<bar>of_int n / 10 - ?v\<bar> \<le> 1 / 20"
    and val: "rating (mapTmdbMovieToCard ?m) = round_double (of_int n / 10)"
    by blast
  have "(76 :: rat) < of_int n" and "of_int n < (78 :: rat)"
    using near by linarith+
  then have "76 < n" and "n < 78"
    by linarith+
  then have "n = 77" by simp
  then have r1: "rating (mapTmdbMovieToCard ?m) = round_double (77 / 10)"
    using val by simp
  have r0: "rating (mapTmdbMovieToCard ?z) = 0"
    using rating_rounded_to_one_decimal [of ?z 0] by simp
  show ?thesis
    by (simp only: in_v r1 r0 rb out_v simp_thms)
qed

text \<open>
C9, as stated, fails: an upstream entry whose \<open>poster_path\<close> is the empty string, which
  the schema accepts, gets no poster URL, not the base URL followed by the empty string.
\<close>

theorem poster_url_of_empty_path_counterexample:
  "poster_path \<lparr>tmdb_id = 603, tmdb_title = ''The Matrix'', release_date = Null,
       vote_average = Null, poster_path = Value ''''\<rparr> = Value ''''
   \<and> posterUrl (mapTmdbMovieToCard
      \<lparr>tmdb_id = 603, tmdb_title = ''The Matrix'', release_date = Null,
       vote_average = Null, poster_path = Value ''''\<rparr>)
     \<noteq> Some (''https://image.tmdb.org/t/p/w500'' @ '''')"
  by (simp add: mapTmdbMovieToCard_def buildPosterUrl_def)

text \<open>
C9, amended. The \<open>posterUrl\<close> of a card is null when \<open>poster_path\<close> is undefined, null
  or the empty string, and otherwise it is the image base URL followed by \<open>poster_path\<close>
  unchanged.
\<close>

theorem poster_url_of_path:
  "posterUrl (mapTmdbMovieToCard m) =
     (case poster_path m of
        Undefined \<Rightarrow> None
      | Null \<Rightarrow> None
      | Value p \<Rightarrow>
          (if p = [] then None else Some (''https://image.tmdb.org/t/p/w500'' @ p)))"
  by (cases "poster_path m")
     (simp_all add: mapTmdbMovieToCard_def buildPosterUrl_def TMDB_POSTER_BASE_URL_def)

theorem poster_url_of_path_witness:
  "posterUrl (mapTmdbMovieToCard
      \<lparr>tmdb_id = 603, tmdb_title = ''The Matrix'', release_date = Null,
       vote_average = Null, poster_path = Value ''/abc.jpg''\<rparr>)
     = Some ''https://image.tmdb.org/t/p/w500/abc.jpg''
   \<and> posterUrl (mapTmdbMovieToCard
      \<lparr>tmdb_id = 603, tmdb_title = ''The Matrix'', release_date = Null,
       vote_average = Null, poster_path = Null\<rparr>) = None"
  using poster_url_of_path
    [of "\<lparr>tmdb_id = 603, tmdb_title = ''The Matrix'', release_date = Null,
       vote_average = Null, poster_path = Value ''/abc.jpg''\<rparr>"]
    poster_url_of_path
    [of "\<lparr>tmdb_id = 603, tmdb_title = ''The Matrix'', release_date = Null,
       vote_average = Null, poster_path = Null\<rparr>"]
  by simp

text \<open>
C10. Whatever the key, the network and the body are, the payload of either handler
  has an \<open>error\<close> member exactly when it has no movie; so the widget never receives
  from them the payload for which it shows its empty state (no truthy error and no
  movie).
\<close>

theorem error_iff_no_movies:
  "(error (props (fst (searchMoviesHandler w q))) \<noteq> None)
      = (movies (props (fst (searchMoviesHandler w q))) = [])
   \<and> \<not> widget_empty_state (props (fst (searchMoviesHandler w q)))
   \<and> (error (props (fst (edge_search_movies w q))) \<noteq> None)
      = (movies (props (fst (edge_search_movies w q))) = [])
   \<and> \<not> widget_empty_state (props (fst (edge_search_movies w q)))"
  using handler_shape [of w q] by (auto simp: widget_empty_state_def)

theorem error_iff_no_movies_witness:
  "error (props (fst (searchMoviesHandler
      (world_with (Some ''key'') (respond 503 (BodyThrows (OtherValue None)))) ''matrix''))) \<noteq> None
   \<and> movies (props (fst (searchMoviesHandler
      (world_with (Some ''key'') (respond 503 (BodyThrows (OtherValue None)))) ''matrix''))) = []
   \<and> \<not> widget_empty_state (props (fst (searchMoviesHandler
      (world_with (Some ''key'') (respond 503 (BodyThrows (OtherValue None)))) ''matrix'')))"
proof -
  let ?w = "world_with (Some ''key'') (respond 503 (BodyThrows (OtherValue None)))"
  have "search_try ?w ''key'' ''matrix'' =
           Inr \<lparr>text_output = ''Movie search failed due to an external API error.'',
                props = \<lparr>query = ''matrix'', movies = [],
                         error = Some (js_trim (''TMDB request failed with status ''
                                   @ string_of_nat (status \<lparr>status = 503, json_body = BodyThrows (OtherValue None)\<rparr>) @ ''.'' @ error_details \<lparr>status = 503, json_body = BodyThrows (OtherValue None)\<rparr>))\<rparr>\<rparr>"
    by (rule try_http_failure(1)) (simp_all add: world_with_simps respond_def response_ok_def)
  then have "movies (props (fst (searchMoviesHandler ?w ''matrix''))) = []"
    by (simp add: handler_with_key(1) [of ?w "''key''"] world_with_simps)
  then show ?thesis
    using error_iff_no_movies [of ?w "''matrix''"] by simp
qed

text \<open>
C4, as stated, fails in two ways. The edge handler never reads the body of a failed
  response: a 401 whose body carries the status message "Invalid API key" gives the
  bare status-code message. And \<open>searchMoviesHandler\<close> trims the whole message: the
  status message "Not found. " is not appended as it is, its final space is lost.
\<close>

theorem status_message_not_appended_counterexample:
  "error (props (fst (edge_search_movies
      (world_with (Some ''key'')
         (respond 401 (BodyJson (JObj [(''status_message'', JStr ''Invalid API key'')]))))
      ''matrix''))) = Some ''TMDB request failed with status 401.''
   \<and> \<not> sublist ''Invalid API key'' ''TMDB request failed with status 401.''
   \<and> error (props (fst (searchMoviesHandler
      (world_with (Some ''key'')
         (respond 404 (BodyJson (JObj [(''status_message'', JStr ''Not found. '')]))))
      ''matrix''))) = Some ''TMDB request failed with status 404. Not found.''"
  by code_simp

text \<open>
C4, amended. For every non-2xx response both handlers return no movie, the
  external-API text line, and an error that starts with
  "TMDB request failed with status <code>.". In \<open>searchMoviesHandler\<close>, when the body
  parses to an object whose \<open>status_message\<close> is a non-empty string, the error continues
  with a space and that string, less the whitespace at its end (so with the string
  unchanged when it does not end in whitespace); when reading the body throws, or there
  is no such \<open>status_message\<close>, the error is the status-code message alone and the
  result is still the HTTP-failure one. The edge handler does not read the body: its
  error is always the status-code message alone.
\<close>

theorem http_failure_outcome:
  assumes "apiKey w = Some key" and "key \<noteq> []"
    and "fetch w (search_request key q) = FetchResponse r" and "\<not> response_ok r"
  shows "movies (props (fst (searchMoviesHandler w q))) = []
       \<and> text_output (fst (searchMoviesHandler w q))
           = ''Movie search failed due to an external API error.''
       \<and> (\<exists>rest. error (props (fst (searchMoviesHandler w q)))
             = Some (''TMDB request failed with status '' @ string_of_nat (status r)
                     @ ''.'' @ rest))
       \<and> (\<forall>b m. json_body r = BodyJson b \<and> status_message b = Some (JStr m) \<and> m \<noteq> []
             \<longrightarrow> error (props (fst (searchMoviesHandler w q)))
                   = Some (''TMDB request failed with status '' @ string_of_nat (status r)
                           @ ''.'' @ js_trimEnd ('' '' @ m))
               \<and> ((\<forall>s \<in> set js_whitespace. \<not> suffix s m)
                   \<longrightarrow> error (props (fst (searchMoviesHandler w q)))
                         = Some (''TMDB request failed with status ''
                                 @ string_of_nat (status r) @ ''. '' @ m)))
       \<and> (\<forall>b. json_body r = BodyJson b
                \<and> \<not> (\<exists>m. status_message b = Some (JStr m) \<and> m \<noteq> [])
             \<longrightarrow> error (props (fst (searchMoviesHandler w q)))
                   = Some (''TMDB request failed with status '' @ string_of_nat (status r)
                           @ ''.''))
       \<and> (\<forall>t. json_body r = BodyThrows t
             \<longrightarrow> error (props (fst (searchMoviesHandler w q)))
                   = Some (''TMDB request failed with status '' @ string_of_nat (status r)
                           @ ''.''))
       \<and> fst (edge_search_movies w q)
           = \<lparr>text_output = ''Movie search failed due to an external API error.'',
              props = \<lparr>query = q, movies = [],
                       error = Some (''TMDB request failed with status ''
                                 @ string_of_nat (status r) @ ''.'')\<rparr>\<rparr>"
proof -
  note res = handler_http_failure [OF assms]
  have err: "error (props (fst (searchMoviesHandler w q)))
      = Some (''TMDB request failed with status '' @ string_of_nat (status r) @ ''.''
              @ js_trimEnd (error_details r))"
    by (simp add: res(1))
  have c1: "movies (props (fst (searchMoviesHandler w q))) = []"
    by (simp add: res(1))
  have c2: "text_output (fst (searchMoviesHandler w q))
           = ''Movie search failed due to an external API error.''"
    by (simp add: res(1))
  have c3: "\<exists>rest. error (props (fst (searchMoviesHandler w q)))
             = Some (''TMDB request failed with status '' @ string_of_nat (status r)
                     @ ''.'' @ rest)"
    using err by blast
  have c4: "\<forall>b m. json_body r = BodyJson b \<and> status_message b = Some (JStr m) \<and> m \<noteq> []
             \<longrightarrow> error (props (fst (searchMoviesHandler w q)))
                   = Some (''TMDB request failed with status '' @ string_of_nat (status r)
                           @ ''.'' @ js_trimEnd ('' '' @ m))
               \<and> ((\<forall>s \<in> set js_whitespace. \<not> suffix s m)
                   \<longrightarrow> error (props (fst (searchMoviesHandler w q)))
                         = Some (''TMDB request failed with status ''
                                 @ string_of_nat (status r) @ ''. '' @ m))"
  proof (intro allI impI, elim conjE)
    fix b m
    assume b: "json_body r = BodyJson b" "status_message b = Some (JStr m)" "m \<noteq> []"
    have d: "error_details r = '' '' @ m"
      using b by (rule error_details_message)
    have first: "error (props (fst (searchMoviesHandler w q)))
        = Some (''TMDB request failed with status '' @ string_of_nat (status r)
                @ ''.'' @ js_trimEnd ('' '' @ m))"
      using err d by simp
    have second: "(\<forall>s \<in> set js_whitespace. \<not> suffix s m)
        \<longrightarrow> error (props (fst (searchMoviesHandler w q)))
              = Some (''TMDB request failed with status ''
                      @ string_of_nat (status r) @ ''. '' @ m)"
    proof
      assume "\<forall>s \<in> set js_whitespace. \<not> suffix s m"
      with b(3) have "js_trimEnd ('' '' @ m) = '' '' @ m"
        by (rule space_then_message)
      then show "error (props (fst (searchMoviesHandler w q)))
              = Some (''TMDB request failed with status ''
                      @ string_of_nat (status r) @ ''. '' @ m)"
        using first by simp
    qed
    from first second
    show "error (props (fst (searchMoviesHandler w q)))
                   = Some (''TMDB request failed with status '' @ string_of_nat (status r)
                           @ ''.'' @ js_trimEnd ('' '' @ m))
               \<and> ((\<forall>s \<in> set js_whitespace. \<not> suffix s m)
                   \<longrightarrow> error (props (fst (searchMoviesHandler w q)))
                         = Some (''TMDB request failed with status ''
                                 @ string_of_nat (status r) @ ''. '' @ m))"
      by (rule conjI)
  qed
  have c5: "\<forall>b. json_body r = BodyJson b
                \<and> \<not> (\<exists>m. status_message b = Some (JStr m) \<and> m \<noteq> [])
             \<longrightarrow> error (props (fst (searchMoviesHandler w q)))
                   = Some (''TMDB request failed with status '' @ string_of_nat (status r)
                           @ ''.'')"
    using err by (auto simp: error_details_no_message js_trimEnd_Nil)
  have c6: "\<forall>t. json_body r = BodyThrows t
             \<longrightarrow> error (props (fst (searchMoviesHandler w q)))
                   = Some (''TMDB request failed with status '' @ string_of_nat (status r)
                           @ ''.'')"
    using err by (auto simp: error_details_throws js_trimEnd_Nil)
  from c1 c2 c3 c4 c5 c6 res(2) show ?thesis
    by (intro conjI)
qed

theorem http_failure_outcome_witness:
  "error (props (fst (searchMoviesHandler
      (world_with (Some ''key'')
         (respond 401 (BodyJson (JObj [(''status_message'', JStr ''Invalid API key'')]))))
      ''matrix''))) = Some ''TMDB request failed with status 401. Invalid API key''
   \<and> error (props (fst (searchMoviesHandler
      (world_with (Some ''key'') (respond 500 (BodyThrows (ErrorInstance ''Unexpected token''))))
      ''matrix''))) = Some ''TMDB request failed with status 500.''"
proof -
  let ?b = "JObj [(''status_message'', JStr ''Invalid API key'')]"
  let ?r1 = "\<lparr>status = 401, json_body = BodyJson ?b\<rparr>"
  let ?w1 = "world_with (Some ''key'') (respond 401 (BodyJson ?b))"
  let ?t = "ErrorInstance ''Unexpected token''"
  let ?r2 = "\<lparr>status = 500, json_body = BodyThrows ?t\<rparr>"
  let ?w2 = "world_with (Some ''key'') (respond 500 (BodyThrows ?t))"
  have k: "''key'' \<noteq> []" by simp
  have f1: "fetch ?w1 (search_request ''key'' ''matrix'') = FetchResponse ?r1"
    by (simp add: world_with_simps respond_def)
  have n1: "\<not> response_ok ?r1" by (simp add: response_ok_def)
  have f2: "fetch ?w2 (search_request ''key'' ''matrix'') = FetchResponse ?r2"
    by (simp add: world_with_simps respond_def)
  have n2: "\<not> response_ok ?r2" by (simp add: response_ok_def)
  have d401: "string_of_nat 401 = ''401''" and d500: "string_of_nat 500 = ''500''"
    by code_simp+
  have body1: "json_body ?r1 = BodyJson ?b \<and> status_message ?b = Some (JStr ''Invalid API key'')
      \<and> ''Invalid API key'' \<noteq> []"
    by (simp add: js_get_def)
  have clean: "\<forall>s \<in> set js_whitespace. \<not> suffix s ''Invalid API key''"
    by (simp add: js_whitespace_def suffix_to_prefix)
  have body2: "json_body ?r2 = BodyThrows ?t" by simp
  have "error (props (fst (searchMoviesHandler ?w1 ''matrix'')))
      = Some (''TMDB request failed with status '' @ string_of_nat (status ?r1) @ ''. ''
              @ ''Invalid API key'')"
    using http_failure_outcome [OF world_with_simps(1) k f1 n1] body1 clean by blast
  moreover have "error (props (fst (searchMoviesHandler ?w2 ''matrix'')))
      = Some (''TMDB request failed with status '' @ string_of_nat (status ?r2) @ ''.'')"
    using http_failure_outcome [OF world_with_simps(1) k f2 n2] body2 by blast
  ultimately show ?thesis
    by (simp add: d401 d500)
qed

end
